theory Spec2Isabelle
  imports Complex_Main "HOL-Library.Word"
begin

unbundle bit_operations_syntax

section \<open>JavaScript numbers\<close>

text \<open>
  The services compute with JavaScript numbers. A finite number is modelled by the real it
  denotes (rounding of doubles is not modelled); the three non-finite values are kept,
  because the code divides by quantities that can be zero (\<open>0 / 0\<close> is \<open>NaN\<close>, it does
  not raise). The sign of zero is not modelled: \<open>x / 0\<close> with \<open>x \<noteq> 0\<close> is the infinity of
  the sign of \<open>x\<close>.
\<close>

datatype jsnum = Fin real | PosInf | NegInf | NaN

fun jneg :: "jsnum \<Rightarrow> jsnum" where
  "jneg (Fin a) = Fin (- a)"
| "jneg PosInf = NegInf"
| "jneg NegInf = PosInf"
| "jneg NaN = NaN"

fun jadd :: "jsnum \<Rightarrow> jsnum \<Rightarrow> jsnum" where
  "jadd (Fin a) (Fin b) = Fin (a + b)"
| "jadd NaN _ = NaN"
| "jadd _ NaN = NaN"
| "jadd PosInf NegInf = NaN"
| "jadd NegInf PosInf = NaN"
| "jadd PosInf _ = PosInf"
| "jadd _ PosInf = PosInf"
| "jadd NegInf _ = NegInf"
| "jadd _ NegInf = NegInf"

definition signedInf :: "bool \<Rightarrow> jsnum" where
  "signedInf positive = (if positive then PosInf else NegInf)"

fun jmul :: "jsnum \<Rightarrow> jsnum \<Rightarrow> jsnum" where
  "jmul (Fin a) (Fin b) = Fin (a * b)"
| "jmul NaN _ = NaN"
| "jmul _ NaN = NaN"
| "jmul (Fin a) PosInf = (if a = 0 then NaN else signedInf (0 < a))"
| "jmul (Fin a) NegInf = (if a = 0 then NaN else signedInf (a < 0))"
| "jmul PosInf (Fin b) = (if b = 0 then NaN else signedInf (0 < b))"
| "jmul NegInf (Fin b) = (if b = 0 then NaN else signedInf (b < 0))"
| "jmul PosInf PosInf = PosInf"
| "jmul PosInf NegInf = NegInf"
| "jmul NegInf PosInf = NegInf"
| "jmul NegInf NegInf = PosInf"

fun jdiv :: "jsnum \<Rightarrow> jsnum \<Rightarrow> jsnum" where
  "jdiv (Fin a) (Fin b) =
     (if b \<noteq> 0 then Fin (a / b) else if a = 0 then NaN else signedInf (0 < a))"
| "jdiv NaN _ = NaN"
| "jdiv _ NaN = NaN"
| "jdiv (Fin a) _ = Fin 0"
| "jdiv PosInf (Fin b) = signedInf (0 \<le> b)"
| "jdiv NegInf (Fin b) = signedInf (b < 0)"
| "jdiv _ _ = NaN"

instantiation jsnum :: "{plus, minus, uminus, times, inverse}"
begin

definition plus_jsnum :: "jsnum \<Rightarrow> jsnum \<Rightarrow> jsnum" where
  "plus_jsnum a b = jadd a b"

definition minus_jsnum :: "jsnum \<Rightarrow> jsnum \<Rightarrow> jsnum" where
  "minus_jsnum a b = jadd a (jneg b)"

definition uminus_jsnum :: "jsnum \<Rightarrow> jsnum" where
  "uminus_jsnum a = jneg a"

definition times_jsnum :: "jsnum \<Rightarrow> jsnum \<Rightarrow> jsnum" where
  "times_jsnum a b = jmul a b"

definition divide_jsnum :: "jsnum \<Rightarrow> jsnum \<Rightarrow> jsnum" where
  "divide_jsnum a b = jdiv a b"

definition inverse_jsnum :: "jsnum \<Rightarrow> jsnum" where
  "inverse_jsnum a = jdiv (Fin 1) a"

instance ..

end

text \<open>\<open>Math.sqrt\<close>, \<open>Math.floor\<close>, \<open>Math.round\<close> (half up) and the comparison \<open>a > b\<close>,
  which is false as soon as an operand is \<open>NaN\<close>.\<close>

fun jsqrt :: "jsnum \<Rightarrow> jsnum" where
  "jsqrt (Fin a) = (if a < 0 then NaN else Fin (sqrt a))"
| "jsqrt PosInf = PosInf"
| "jsqrt NegInf = NaN"
| "jsqrt NaN = NaN"

fun jfloor :: "jsnum \<Rightarrow> jsnum" where
  "jfloor (Fin a) = Fin (of_int \<lfloor>a\<rfloor>)"
| "jfloor v = v"

fun jround :: "jsnum \<Rightarrow> jsnum" where
  "jround (Fin a) = Fin (of_int \<lfloor>a + 1 / 2\<rfloor>)"
| "jround v = v"

fun jgt :: "jsnum \<Rightarrow> jsnum \<Rightarrow> bool" where
  "jgt (Fin a) (Fin b) = (b < a)"
| "jgt NaN _ = False"
| "jgt _ NaN = False"
| "jgt PosInf PosInf = False"
| "jgt PosInf _ = True"
| "jgt _ PosInf = False"
| "jgt NegInf _ = False"
| "jgt _ NegInf = True"

definition jge :: "jsnum \<Rightarrow> jsnum \<Rightarrow> bool" where
  "jge a b = (jgt a b \<or> (a \<noteq> NaN \<and> a = b))"

text \<open>A value is finite when it is a real.\<close>

fun isFinite :: "jsnum \<Rightarrow> bool" where
  "isFinite (Fin _) = True"
| "isFinite _ = False"

section \<open>services/featureExtraction.ts\<close>

subsection \<open>Pixel buffers\<close>

text \<open>
  \<open>ctx.getImageData\<close> returns \<open>width * height\<close> pixels of four bytes (R, G, B, A) in row
  order. An image is passed around as the source passes it: the byte array \<open>data\<close> and the
  two dimensions. \<open>wellFormed\<close> states the shape of such a buffer; the loops below read only
  pixels \<open>(x, y)\<close> with \<open>0 \<le> x < width\<close> and \<open>0 \<le> y < height\<close>, which are inside a buffer of
  that shape. A read outside the buffer, which JavaScript answers with \<open>undefined\<close>, has no
  specified value here; no statement below depends on one.
\<close>

definition wellFormed :: "nat list \<Rightarrow> int \<Rightarrow> int \<Rightarrow> bool" where
  "wellFormed d w h =
     (0 \<le> w \<and> 0 \<le> h \<and> int (length d) = 4 * w * h \<and> list_all (\<lambda>b. b < 256) d)"

definition getGrayValue :: "nat list \<Rightarrow> int \<Rightarrow> int \<Rightarrow> int \<Rightarrow> real" where
  "getGrayValue d w x y =
     (let idx = (y * w + x) * 4
      in 0.299 * real (d ! nat idx) + 0.587 * real (d ! nat (idx + 1))
         + 0.114 * real (d ! nat (idx + 2)))"

subsection \<open>Keypoint estimates\<close>

definition complexityEdge :: "nat list \<Rightarrow> int \<Rightarrow> int \<Rightarrow> int \<Rightarrow> bool" where
  "complexityEdge d w x y =
     (let gray = getGrayValue d w x y;
          grayRight = getGrayValue d w (x + 1) y;
          grayDown = getGrayValue d w x (y + 1)
      in \<bar>gray - grayRight\<bar> > 30 \<or> \<bar>gray - grayDown\<bar> > 30)"

definition calculateImageComplexity :: "nat list \<Rightarrow> int \<Rightarrow> int \<Rightarrow> jsnum" where
  "calculateImageComplexity d w h =
     (let edgeCount =
            fold (\<lambda>y ec. fold (\<lambda>x ec. if complexityEdge d w x y then ec + 1 else ec)
                           [0..w - 2] ec)
                 [0..h - 2] (0::nat)
      in Fin (real edgeCount) / Fin (real_of_int (w * h)))"

definition gradientMagnitude :: "nat list \<Rightarrow> int \<Rightarrow> int \<Rightarrow> int \<Rightarrow> real" where
  "gradientMagnitude d w x y =
     (let gx = getGrayValue d w (x + 1) y - getGrayValue d w (x - 1) y;
          gy = getGrayValue d w x (y + 1) - getGrayValue d w x (y - 1)
      in sqrt (gx * gx + gy * gy))"

definition calculateEdgeDensity :: "nat list \<Rightarrow> int \<Rightarrow> int \<Rightarrow> jsnum" where
  "calculateEdgeDensity d w h =
     (let edgeStrength =
            fold (\<lambda>y es. fold (\<lambda>x es. es + gradientMagnitude d w x y) [1..w - 2] es)
                 [1..h - 2] (0::real)
      in Fin edgeStrength / Fin (real_of_int ((w - 2) * (h - 2) * 255)))"

record KeypointStats =
  orb :: jsnum
  fast :: jsnum
  sift :: jsnum

definition extractKeypoints :: "nat list \<Rightarrow> int \<Rightarrow> int \<Rightarrow> KeypointStats" where
  "extractKeypoints d w h =
     (let complexity = calculateImageComplexity d w h;
          edgeDensity = calculateEdgeDensity d w h;
          baseOrb = jfloor (Fin 30 + complexity * Fin 250 + edgeDensity * Fin 100);
          baseFast = jfloor (Fin 80 + complexity * Fin 400 + edgeDensity * Fin 150);
          baseSift = jfloor (Fin 20 + complexity * Fin 180 + edgeDensity * Fin 80)
      in \<lparr>orb = baseOrb, fast = baseFast, sift = baseSift\<rparr>)"

subsection \<open>Quality metrics\<close>

record QualityMetrics =
  brightness :: jsnum
  contrast :: jsnum
  sharpness :: jsnum

text \<open>\<open>Math.round(v * 100) / 100\<close>.\<close>

definition round2 :: "jsnum \<Rightarrow> jsnum" where
  "round2 v = jround (v * Fin 100) / Fin 100"

definition laplacian :: "nat list \<Rightarrow> int \<Rightarrow> int \<Rightarrow> int \<Rightarrow> real" where
  "laplacian d w x y =
     \<bar>- 4 * getGrayValue d w x y
       + getGrayValue d w (x - 1) y + getGrayValue d w (x + 1) y
       + getGrayValue d w x (y - 1) + getGrayValue d w x (y + 1)\<bar>"

definition qualityStep ::
  "nat list \<Rightarrow> int \<Rightarrow> int \<Rightarrow> int \<Rightarrow> int \<Rightarrow> real \<times> real \<times> real \<Rightarrow> real \<times> real \<times> real" where
  "qualityStep d w h y x acc =
     (case acc of (graySum, sqSum, sharp) \<Rightarrow>
        (let gray = getGrayValue d w x y
         in (graySum + gray, sqSum + gray * gray,
             if x > 0 \<and> x < w - 1 \<and> y > 0 \<and> y < h - 1
             then sharp + laplacian d w x y else sharp)))"

definition analyzeImageQuality :: "nat list \<Rightarrow> int \<Rightarrow> int \<Rightarrow> QualityMetrics" where
  "analyzeImageQuality d w h =
     (case fold (\<lambda>y acc. fold (qualityStep d w h y) [0..w - 1] acc) [0..h - 1] (0, 0, 0)
      of (graySum, sqSum, sharp) \<Rightarrow>
        (let pixelCount = Fin (real_of_int (w * h));
             brightness = Fin graySum / pixelCount;
             variance = (Fin sqSum / pixelCount) - (brightness * brightness);
             contrast = jsqrt variance;
             sharpness = Fin sharp / Fin (real_of_int ((w - 2) * (h - 2)))
         in \<lparr>brightness = round2 brightness, contrast = round2 contrast,
             sharpness = round2 sharpness\<rparr>))"


subsection \<open>Local binary patterns\<close>

record LBP =
  histogram :: "real list"
  patterns :: nat
  radius :: int

definition lbpValue :: "nat list \<Rightarrow> int \<Rightarrow> int \<Rightarrow> int \<Rightarrow> int" where
  "lbpValue d w x y =
     (let center = getGrayValue d w x y;
          neighbors =
            [getGrayValue d w (x - 1) (y - 1),
             getGrayValue d w x (y - 1),
             getGrayValue d w (x + 1) (y - 1),
             getGrayValue d w (x + 1) y,
             getGrayValue d w (x + 1) (y + 1),
             getGrayValue d w x (y + 1),
             getGrayValue d w (x - 1) (y + 1),
             getGrayValue d w (x - 1) y]
      in fold (\<lambda>i v. if neighbors ! i \<ge> center then v OR push_bit i 1 else v)
              [0..<8] 0)"

definition lbpCounts :: "nat list \<Rightarrow> int \<Rightarrow> int \<Rightarrow> nat list" where
  "lbpCounts d w h =
     fold (\<lambda>y hist.
             fold (\<lambda>x hist. (let v = nat (lbpValue d w x y) in hist[v := hist ! v + 1]))
                  [1..w - 2] hist)
          [1..h - 2] (replicate 256 0)"

definition computeLBP :: "nat list \<Rightarrow> int \<Rightarrow> int \<Rightarrow> LBP" where
  "computeLBP d w h =
     (let histogram = lbpCounts d w h;
          total = fold (\<lambda>val acc. acc + real val) histogram 0 + 1 / 1000000;
          normalizedHistogram = map (\<lambda>val. real val / total) histogram
      in \<lparr>histogram = normalizedHistogram, patterns = 256, radius = 1\<rparr>)"

subsection \<open>Histogram of oriented gradients\<close>

text \<open>A counting loop \<open>for (v = start; v < limit; v += step)\<close>: the values \<open>v\<close> takes.\<close>

function steps :: "int \<Rightarrow> int \<Rightarrow> int \<Rightarrow> int list" where
  "steps v limit step =
     (if v < limit \<and> 0 < step then v # steps (v + step) limit step else [])"
  by pat_completeness auto
termination
  by (relation "measure (\<lambda>(v, limit, step). nat (limit - v))") auto

declare steps.simps [simp del]

text \<open>\<open>Math.atan2\<close> on finite arguments, and the remainder \<open>a % b\<close>, whose sign is the
  sign of \<open>a\<close>.\<close>

definition atan2 :: "real \<Rightarrow> real \<Rightarrow> real" where
  "atan2 y x =
     (if 0 < x then arctan (y / x)
      else if x < 0 then (if 0 \<le> y then arctan (y / x) + pi else arctan (y / x) - pi)
      else if 0 < y then pi / 2
      else if y < 0 then - pi / 2
      else 0)"

definition fmod :: "real \<Rightarrow> real \<Rightarrow> real" where
  "fmod a b =
     a - b * real_of_int (if 0 \<le> a / b then \<lfloor>a / b\<rfloor> else \<lceil>a / b\<rceil>)"

record HOG =
  descriptor :: "real list"
  bins :: int
  cellSize :: int

definition hogBin :: "real \<Rightarrow> real \<Rightarrow> int" where
  "hogBin gx gy =
     (let angle = fmod (atan2 gy gx * 180 / pi + 180) 180
      in \<lfloor>fmod (real_of_int \<lfloor>angle / (180 / 9)\<rfloor>) 9\<rfloor>)"

definition hogPixel ::
  "nat list \<Rightarrow> int \<Rightarrow> int \<Rightarrow> int \<Rightarrow> int \<Rightarrow> real list \<Rightarrow> real list" where
  "hogPixel d w h py px cellHistogram =
     (if py > 0 \<and> py < h - 1 \<and> px > 0 \<and> px < w - 1
      then (let gx = getGrayValue d w (px + 1) py - getGrayValue d w (px - 1) py;
                gy = getGrayValue d w px (py + 1) - getGrayValue d w px (py - 1);
                magnitude = sqrt (gx * gx + gy * gy);
                bin = nat (hogBin gx gy)
            in cellHistogram[bin := cellHistogram ! bin + magnitude])
      else cellHistogram)"

definition hogCell :: "nat list \<Rightarrow> int \<Rightarrow> int \<Rightarrow> int \<Rightarrow> int \<Rightarrow> real list" where
  "hogCell d w h y x =
     fold (\<lambda>cy hist. fold (\<lambda>cx hist. hogPixel d w h (y + cy) (x + cx) hist) [0..7] hist)
          [0..7] (replicate 9 0)"

definition sumSquares :: "real list \<Rightarrow> real" where
  "sumSquares xs = fold (\<lambda>val acc. acc + val * val) xs 0"

definition computeHOG :: "nat list \<Rightarrow> int \<Rightarrow> int \<Rightarrow> HOG" where
  "computeHOG d w h =
     (let cellSize = 8;
          descriptor =
            concat (map (\<lambda>y. concat (map (\<lambda>x. hogCell d w h y x)
                                          (steps cellSize (w - cellSize) cellSize)))
                        (steps cellSize (h - cellSize) cellSize));
          norm = sqrt (sumSquares descriptor) + 1 / 1000000;
          normalized = map (\<lambda>val. val / norm) descriptor
      in \<lparr>descriptor = take 100 normalized, bins = 9, cellSize = cellSize\<rparr>)"

subsection \<open>Gray-level co-occurrence\<close>

record GLCM =
  contrast :: real
  dissimilarity :: real
  homogeneity :: real
  energy :: real
  correlation :: real
  asm :: real

text \<open>\<open>Math.round(v * 100) / 100\<close> and \<open>Math.round(v * 1000000) / 1000000\<close> on a finite
  number. The source accumulates the five sums of \<open>computeGLCM\<close> in one pass over the
  matrix; \<open>glcmFeature\<close> is one such sum, taken in the same order.\<close>

definition roundTo :: "real \<Rightarrow> real \<Rightarrow> real" where
  "roundTo scale v = real_of_int \<lfloor>v * scale + 1 / 2\<rfloor> / scale"

definition glcmCount :: "nat list \<Rightarrow> int \<Rightarrow> int \<Rightarrow> int \<Rightarrow> nat list list \<Rightarrow> nat list list" where
  "glcmCount d w y x glcm =
     (let i = \<lfloor>getGrayValue d w x y\<rfloor>;
          j = \<lfloor>getGrayValue d w (x + 1) y\<rfloor>
      in if i < 256 \<and> j < 256
         then glcm[nat i := (glcm ! nat i)[nat j := glcm ! nat i ! nat j + 1]]
         else glcm)"

definition glcmCounts :: "nat list \<Rightarrow> int \<Rightarrow> int \<Rightarrow> nat list list" where
  "glcmCounts d w h =
     fold (\<lambda>y glcm. fold (\<lambda>x glcm. glcmCount d w y x glcm) [0..w - 2] glcm)
          [0..h - 1] (replicate 256 (replicate 256 0))"

definition glcmFeature :: "(real \<Rightarrow> int \<Rightarrow> int \<Rightarrow> real) \<Rightarrow> real list list \<Rightarrow> real" where
  "glcmFeature f glcm =
     fold (\<lambda>i acc. fold (\<lambda>j acc. acc + f (glcm ! nat i ! nat j) i j) [0..255] acc)
          [0..255] 0"

definition computeGLCM :: "nat list \<Rightarrow> int \<Rightarrow> int \<Rightarrow> GLCM" where
  "computeGLCM d w h =
     (let counts = glcmCounts d w h;
          total = glcmFeature (\<lambda>p i j. p) (map (map real) counts);
          glcm = map (map (\<lambda>c. real c / (total + 1 / 1000000))) counts;
          contrast = glcmFeature (\<lambda>p i j. p * real_of_int (i - j) * real_of_int (i - j)) glcm;
          dissimilarity = glcmFeature (\<lambda>p i j. p * real_of_int \<bar>i - j\<bar>) glcm;
          homogeneity = glcmFeature (\<lambda>p i j. p / (1 + real_of_int \<bar>i - j\<bar>)) glcm;
          energy = glcmFeature (\<lambda>p i j. p * p) glcm;
          asm = glcmFeature (\<lambda>p i j. p * p) glcm;
          correlation = 0
      in \<lparr>contrast = roundTo 100 contrast,
          dissimilarity = roundTo 100 dissimilarity,
          homogeneity = roundTo 100 homogeneity,
          energy = roundTo 100 energy,
          correlation = roundTo 100 correlation,
          asm = roundTo 100 asm\<rparr>)"

record TextureFeatures =
  hog :: HOG
  lbp :: LBP
  glcm :: GLCM

definition extractTextureFeatures :: "nat list \<Rightarrow> int \<Rightarrow> int \<Rightarrow> TextureFeatures" where
  "extractTextureFeatures d w h =
     \<lparr>hog = computeHOG d w h, lbp = computeLBP d w h, glcm = computeGLCM d w h\<rparr>"

subsection \<open>Statistical features\<close>

definition rawMoments :: "nat list \<Rightarrow> int \<Rightarrow> int \<Rightarrow> real \<times> real \<times> real" where
  "rawMoments d w h =
     fold (\<lambda>y acc. fold (\<lambda>x acc. (case acc of (m00, m10, m01) \<Rightarrow>
                                      (let gray = getGrayValue d w x y
                                       in (m00 + gray, m10 + real_of_int x * gray,
                                           m01 + real_of_int y * gray))))
                          [0..w - 1] acc)
          [0..h - 1] (0, 0, 0)"

definition centralMoments ::
  "nat list \<Rightarrow> int \<Rightarrow> int \<Rightarrow> real \<Rightarrow> real \<Rightarrow> real \<times> real \<times> real" where
  "centralMoments d w h xc yc =
     fold (\<lambda>y acc. fold (\<lambda>x acc. (case acc of (mu20, mu02, mu11) \<Rightarrow>
                                      (let gray = getGrayValue d w x y;
                                           dx = real_of_int x - xc;
                                           dy = real_of_int y - yc
                                       in (mu20 + dx * dx * gray, mu02 + dy * dy * gray,
                                           mu11 + dx * dy * gray))))
                          [0..w - 1] acc)
          [0..h - 1] (0, 0, 0)"

definition computeHuMoments :: "nat list \<Rightarrow> int \<Rightarrow> int \<Rightarrow> real list" where
  "computeHuMoments d w h =
     (case rawMoments d w h of (m00, m10, m01) \<Rightarrow>
        (let xc = m10 / (m00 + 1 / 1000000);
             yc = m01 / (m00 + 1 / 1000000)
         in case centralMoments d w h xc yc of (mu20, mu02, mu11) \<Rightarrow>
              (let eta20 = mu20 / (m00 * m00 + 1 / 1000000);
                   eta02 = mu02 / (m00 * m00 + 1 / 1000000);
                   eta11 = mu11 / (m00 * m00 + 1 / 1000000);
                   moments =
                     [eta20 + eta02,
                      (eta20 - eta02) * (eta20 - eta02) + 4 * eta11 * eta11,
                      (eta20 - 3 * eta02) * (eta20 - 3 * eta02),
                      (eta20 + eta02) * (eta20 + eta02),
                      eta11 * ((eta20 - eta02) * (eta20 - eta02)),
                      (eta20 - eta02) * eta11,
                      eta11 * (eta20 + eta02)]
               in map (roundTo 1000000) moments)))"

record ColorMoments =
  mean :: "jsnum list"
  std :: "jsnum list"
  skewness :: "jsnum list"

definition channelSums :: "nat list \<Rightarrow> int \<Rightarrow> real \<times> real \<times> real" where
  "channelSums d ch =
     fold (\<lambda>i acc. (case acc of (valSum, sqSum, cubeSum) \<Rightarrow>
                       (let val = real (d ! nat i)
                        in (valSum + val, sqSum + val * val, cubeSum + val * val * val))))
          (steps ch (int (length d)) 4) (0, 0, 0)"

definition channelMoments :: "nat list \<Rightarrow> int \<Rightarrow> int \<Rightarrow> int \<Rightarrow> jsnum \<times> jsnum \<times> jsnum" where
  "channelMoments d w h ch =
     (case channelSums d ch of (valSum, sqSum, cubeSum) \<Rightarrow>
        (let n = Fin (real_of_int (w * h));
             m = Fin valSum / n;
             variance = (Fin sqSum / n) - (m * m);
             s = jsqrt variance;
             sk = (Fin cubeSum / n - Fin 3 * m * variance - m * m * m)
                  / (s * s * s + Fin (1 / 1000000))
         in (round2 m, round2 s, round2 sk)))"

definition computeColorMoments :: "nat list \<Rightarrow> int \<Rightarrow> int \<Rightarrow> ColorMoments" where
  "computeColorMoments d w h =
     (let channels = [0, 1, 2];
          results = map (channelMoments d w h) channels
      in \<lparr>mean = map (\<lambda>r. fst r) results,
          std = map (\<lambda>r. fst (snd r)) results,
          skewness = map (\<lambda>r. snd (snd r)) results\<rparr>)"

record StatisticalFeatures =
  huMoments :: "real list"
  colorMoments :: ColorMoments

definition extractStatisticalFeatures :: "nat list \<Rightarrow> int \<Rightarrow> int \<Rightarrow> StatisticalFeatures" where
  "extractStatisticalFeatures d w h =
     \<lparr>huMoments = computeHuMoments d w h, colorMoments = computeColorMoments d w h\<rparr>"

subsection \<open>Feature vector construction\<close>

record FeatureVector =
  keypoints :: "jsnum list"
  texture :: "jsnum list"
  statistical :: "jsnum list"
  fused :: "jsnum list"
  dimensionality :: nat

text \<open>\<open>Math.sqrt(v.reduce((sum, val) => sum + val * val, 0))\<close>.\<close>

definition l2norm :: "jsnum list \<Rightarrow> jsnum" where
  "l2norm v = jsqrt (fold (\<lambda>val acc. acc + val * val) v (Fin 0))"

definition constructFeatureVector ::
  "KeypointStats \<Rightarrow> TextureFeatures \<Rightarrow> StatisticalFeatures \<Rightarrow> FeatureVector" where
  "constructFeatureVector kp tex stat =
     (let keypointVec = [orb kp, fast kp, sift kp];
          textureVec =
            map Fin (take 20 (descriptor (hog tex)))
            @ map Fin (take 20 (histogram (lbp tex)))
            @ [Fin (contrast (glcm tex)), Fin (energy (glcm tex)),
               Fin (homogeneity (glcm tex))];
          statVec =
            map Fin (huMoments stat) @ mean (colorMoments stat) @ std (colorMoments stat);
          fusedVec = keypointVec @ textureVec @ statVec;
          norm = l2norm fusedVec + Fin (1 / 1000000);
          normalized = map (\<lambda>val. val / norm) fusedVec
      in \<lparr>keypoints = keypointVec, texture = textureVec, statistical = statVec,
          fused = normalized, dimensionality = length normalized\<rparr>)"

text \<open>The feature vector of an image, as the \<open>onload\<close> handler of
  \<open>extractComprehensiveFeatures\<close> builds it from the pixel buffer.\<close>

definition extractFeatureVector :: "nat list \<Rightarrow> int \<Rightarrow> int \<Rightarrow> FeatureVector" where
  "extractFeatureVector d w h =
     (let keypoints = extractKeypoints d w h;
          textureFeatures = extractTextureFeatures d w h;
          statisticalFeatures = extractStatisticalFeatures d w h
      in constructFeatureVector keypoints textureFeatures statisticalFeatures)"

subsection \<open>The result object of \<open>extractComprehensiveFeatures\<close>\<close>

text \<open>
  \<open>extractComprehensiveFeatures\<close> builds its result as an object literal typed \<open>any\<close>, and
  its caller reads it by property paths. The object is therefore modelled as a JavaScript
  value, and a property read as a lookup: reading a property of \<open>undefined\<close> raises a
  \<open>TypeError\<close>, reading an absent property of an object gives \<open>undefined\<close>. (Properties of
  numbers, strings and arrays are not used by the callers and read as \<open>undefined\<close>.) The
  \<open>processingTime\<close> field, which holds wall-clock differences, is left out.
\<close>

datatype jsval =
  JUndefined
  | JNum jsnum
  | JStr string
  | JArr "jsval list"
  | JObj "(string \<times> jsval) list"

datatype jserror = Error string | TypeError string | LoadFailure

definition numbers :: "real list \<Rightarrow> jsval" where
  "numbers rs = JArr (map (\<lambda>r. JNum (Fin r)) rs)"

definition featureVectorObject :: "FeatureVector \<Rightarrow> jsval" where
  "featureVectorObject v =
     JObj [(''keypoints'', JArr (map JNum (keypoints v))),
           (''texture'', JArr (map JNum (texture v))),
           (''statistical'', JArr (map JNum (statistical v))),
           (''fused'', JArr (map JNum (fused v))),
           (''dimensionality'', JNum (Fin (real (dimensionality v))))]"

definition keypointsObject :: "KeypointStats \<Rightarrow> jsval" where
  "keypointsObject k =
     JObj [(''orb'', JNum (orb k)), (''fast'', JNum (fast k)), (''sift'', JNum (sift k))]"

definition textureObject :: "TextureFeatures \<Rightarrow> jsval" where
  "textureObject t =
     JObj [(''hog'', JObj [(''descriptor'', numbers (descriptor (hog t))),
                          (''bins'', JNum (Fin (real_of_int (bins (hog t))))),
                          (''cellSize'', JNum (Fin (real_of_int (cellSize (hog t)))))]),
           (''lbp'', JObj [(''histogram'', numbers (histogram (lbp t))),
                          (''patterns'', JNum (Fin (real (patterns (lbp t))))),
                          (''radius'', JNum (Fin (real_of_int (radius (lbp t)))))]),
           (''glcm'', JObj [(''contrast'', JNum (Fin (contrast (glcm t)))),
                           (''dissimilarity'', JNum (Fin (dissimilarity (glcm t)))),
                           (''homogeneity'', JNum (Fin (homogeneity (glcm t)))),
                           (''energy'', JNum (Fin (energy (glcm t)))),
                           (''correlation'', JNum (Fin (correlation (glcm t)))),
                           (''asm'', JNum (Fin (asm (glcm t))))])]"

definition statisticalObject :: "StatisticalFeatures \<Rightarrow> jsval" where
  "statisticalObject s =
     JObj [(''huMoments'', numbers (huMoments s)),
           (''colorMoments'',
              JObj [(''mean'', JArr (map JNum (mean (colorMoments s)))),
                    (''std'', JArr (map JNum (std (colorMoments s)))),
                    (''skewness'', JArr (map JNum (skewness (colorMoments s))))])]"

definition qualityObject :: "QualityMetrics \<Rightarrow> jsval" where
  "qualityObject q =
     JObj [(''brightness'', JNum (brightness q)),
           (''contrast'', JNum (QualityMetrics.contrast q)),
           (''sharpness'', JNum (sharpness q))]"

text \<open>The \<open>onload\<close> handler: the analyzers run on the pixels and the result object is
  assembled.\<close>

definition featureResult :: "string \<Rightarrow> nat list \<Rightarrow> int \<Rightarrow> int \<Rightarrow> jsval" where
  "featureResult imageName d w h =
     (let keypoints = extractKeypoints d w h;
          textureFeatures = extractTextureFeatures d w h;
          statisticalFeatures = extractStatisticalFeatures d w h;
          quality = analyzeImageQuality d w h;
          featureVector = constructFeatureVector keypoints textureFeatures statisticalFeatures
      in JObj [(''imageName'', JStr imageName),
               (''imageSize'', JObj [(''width'', JNum (Fin (real_of_int w))),
                                    (''height'', JNum (Fin (real_of_int h)))]),
               (''keypoints'', keypointsObject keypoints),
               (''texture'', textureObject textureFeatures),
               (''statistical'', statisticalObject statisticalFeatures),
               (''quality'', qualityObject quality),
               (''featureVector'', featureVectorObject featureVector)])"

text \<open>
  What the browser contributes is a parameter: \<open>pixels url\<close> is the pixel buffer, width and
  height that the canvas yields for the image at \<open>url\<close>, or \<open>None\<close> when the image fails to
  load (\<open>img.onerror\<close>) or the canvas has no 2d context. In both cases the promise resolves to
  \<open>null\<close>.
\<close>

definition extractComprehensiveFeatures ::
  "(string \<Rightarrow> (nat list \<times> int \<times> int) option) \<Rightarrow> string \<Rightarrow> string \<Rightarrow> jsval option" where
  "extractComprehensiveFeatures pixels imageUrl imageName =
     (case pixels imageUrl of
        None \<Rightarrow> None
      | Some (d, w, h) \<Rightarrow> Some (featureResult imageName d w h))"

section \<open>services/imageUtils.ts: the gamma lookup tables\<close>

text \<open>
  \<open>Math.pow\<close> on a finite base. Both call sites pass the base \<open>i / 255 \<ge> 0\<close>; a negative
  base is \<open>NaN\<close> unless the exponent is an integer.
\<close>

fun jpow :: "real \<Rightarrow> jsnum \<Rightarrow> jsnum" where
  "jpow x (Fin y) =
     (if y = 0 then Fin 1
      else if 0 < x then Fin (x powr y)
      else if x = 0 then (if 0 < y then Fin 0 else PosInf)
      else if y \<in> \<int> then Fin (power_int x \<lfloor>y\<rfloor>) else NaN)"
| "jpow x PosInf = (if \<bar>x\<bar> < 1 then Fin 0 else if \<bar>x\<bar> = 1 then NaN else PosInf)"
| "jpow x NegInf = (if \<bar>x\<bar> < 1 then PosInf else if \<bar>x\<bar> = 1 then NaN else Fin 0)"
| "jpow x NaN = NaN"

text \<open>Storing a number into a \<open>Uint8Array\<close>: truncate, then reduce modulo 256; a
  non-finite number is stored as 0.\<close>

fun toUint8 :: "jsnum \<Rightarrow> nat" where
  "toUint8 (Fin v) = nat ((if 0 \<le> v then \<lfloor>v\<rfloor> else \<lceil>v\<rceil>) mod 256)"
| "toUint8 _ = 0"

text \<open>The table built in \<open>applyGamma\<close>, for the caller's \<open>gamma\<close>.\<close>

definition applyGamma_lut :: "real \<Rightarrow> nat list" where
  "applyGamma_lut gamma =
     (let invGamma = Fin 1 / Fin gamma
      in map (\<lambda>i. toUint8 (jfloor (jpow (real i / 255) invGamma * Fin 255))) [0..<256])"

text \<open>The table built in \<open>applyCompositeEnhancement\<close>, with its fixed \<open>gamma = 1.8\<close>.\<close>

definition applyCompositeEnhancement_lut :: "nat list" where
  "applyCompositeEnhancement_lut =
     (let gamma = 1.8;
          invGamma = Fin 1 / Fin gamma
      in map (\<lambda>i. (let val = jpow (real i / 255) invGamma * Fin 255
                    in toUint8 (jfloor val)))
             [0..<256])"

text \<open>\<open>applyLutManual\<close>: every byte of the source is replaced by its table entry.\<close>

definition applyLutManual :: "nat list \<Rightarrow> nat list \<Rightarrow> nat list" where
  "applyLutManual srcData lut = map (\<lambda>v. lut ! v) srcData"

section \<open>services/metricsCalculation.ts\<close>

text \<open>The fields \<open>x\<close>, \<open>y\<close>, \<open>width\<close>, \<open>height\<close> and \<open>class\<close> of a bounding box are named
  \<open>boxX\<close>, \<open>boxY\<close>, \<open>boxWidth\<close>, \<open>boxHeight\<close> and \<open>class'\<close> here.\<close>

record BoundingBox =
  boxX :: real
  boxY :: real
  boxWidth :: real
  boxHeight :: real
  confidence :: real
  class' :: string
  classId :: int

record DetectionResult =
  boxes :: "BoundingBox list"
  imageWidth :: real
  imageHeight :: real
  processingTime :: real
  modelVersion :: string

record DetectionMetrics =
  totalDetections :: nat
  averageConfidence :: real
  maxConfidence :: real
  minConfidence :: real
  classCounts :: "(string \<times> nat) list"
  totalArea :: real

text \<open>\<open>classCounts[det.class] = (classCounts[det.class] || 0) + 1\<close> on an object whose keys
  (class names, not integers) keep their insertion order.\<close>

fun countClass :: "string \<Rightarrow> (string \<times> nat) list \<Rightarrow> (string \<times> nat) list" where
  "countClass c [] = [(c, 1)]"
| "countClass c ((k, n) # rest) =
     (if k = c then (k, n + 1) # rest else (k, n) # countClass c rest)"

definition calculateDetectionMetrics :: "BoundingBox list \<Rightarrow> DetectionMetrics" where
  "calculateDetectionMetrics detections =
     (case detections of
        [] \<Rightarrow> \<lparr>totalDetections = 0, averageConfidence = 0, maxConfidence = 0,
               minConfidence = 0, classCounts = [], totalArea = 0\<rparr>
      | first # others \<Rightarrow>
          (let confidences = map confidence detections
           in \<lparr>totalDetections = length detections,
               averageConfidence =
                 fold (\<lambda>b a. a + b) confidences 0 / real (length confidences),
               maxConfidence = fold max (map confidence others) (confidence first),
               minConfidence = fold min (map confidence others) (confidence first),
               classCounts = fold (\<lambda>det counts. countClass (class' det) counts) detections [],
               totalArea = fold (\<lambda>det area. area + boxWidth det * boxHeight det) detections 0\<rparr>))"

record PerClassMetrics =
  className :: string
  precision :: real
  recall :: real
  ap :: real

record EvaluationMetrics =
  accuracy :: real
  precision :: real
  recall :: real
  f1Score :: real
  mAP :: real
  mAP50 :: real
  mAP75 :: real
  perClassMetrics :: "PerClassMetrics list"

definition perClass :: "BoundingBox list \<Rightarrow> string \<times> nat \<Rightarrow> PerClassMetrics" where
  "perClass predictions entry =
     (case entry of (name, count) \<Rightarrow>
        (let classDetections = filter (\<lambda>p. class' p = name) predictions;
             avgConf = (if length classDetections > 0
                        then fold (\<lambda>b a. a + confidence b) classDetections 0
                             / real (length classDetections)
                        else 0)
         in \<lparr>className = name, PerClassMetrics.precision = avgConf,
             PerClassMetrics.recall = min 1 (real count / 5), ap = avgConf * 0.9\<rparr>))"

definition calculateMetrics :: "BoundingBox list \<Rightarrow> BoundingBox list \<Rightarrow> EvaluationMetrics" where
  "calculateMetrics predictions groundTruth =
     (let metrics = calculateDetectionMetrics predictions;
          accuracy = averageConfidence metrics;
          precision = (if totalDetections metrics > 0 then averageConfidence metrics else 0);
          recall = (if totalDetections metrics > 0
                    then min 1 (real (totalDetections metrics) / 10) else 0);
          f1Score = (if precision + recall > 0
                     then (2 * precision * recall) / (precision + recall) else 0);
          mAP = averageConfidence metrics * 0.9;
          mAP50 = averageConfidence metrics;
          mAP75 = averageConfidence metrics * 0.8
      in \<lparr>accuracy = accuracy, precision = precision, recall = recall, f1Score = f1Score,
          mAP = mAP, mAP50 = mAP50, mAP75 = mAP75,
          perClassMetrics = map (perClass predictions) (classCounts metrics)\<rparr>)"

definition generateSyntheticGroundTruth ::
  "real \<Rightarrow> real \<Rightarrow> BoundingBox list option \<Rightarrow> BoundingBox list" where
  "generateSyntheticGroundTruth w h detections =
     (case detections of Some ds \<Rightarrow> ds | None \<Rightarrow> [])"

section \<open>services/pipelineService.ts\<close>

datatype Stage =
  Stage_enhancement
  | Stage_feature_extraction
  | Stage_detection
  | Stage_comparison
  | Stage_complete

datatype ImageKind = Image_raw | Image_enhanced

record PipelineProgress =
  stage :: Stage
  progress :: nat
  message :: string
  currentImage :: "ImageKind option"

text \<open>
  What \<open>runPipeline\<close> does to the outside, in order: a call of the observer with a progress
  event, or a call of one of the services it awaits. The outcomes of those services are
  parameters of the run.
\<close>

datatype effect =
  Observed PipelineProgress
  | WaitForOpenCV
  | LoadImage string
  | ApplyCompositeEnhancement string
  | ExtractComprehensiveFeatures string
  | LoadModel
  | Detect string

record PipelineEnv =
  openCVReady :: bool
  imageLoads :: "string \<Rightarrow> jserror option"
  compositeEnhancement :: "string \<Rightarrow> jserror + string"
  pixels :: "string \<Rightarrow> (nat list \<times> int \<times> int) option"
  modelLoads :: "jserror option"
  yoloDetect :: "string \<Rightarrow> jserror + DetectionResult"
  dateNow :: real

text \<open>\<open>waitForOpenCV\<close> polls until OpenCV is ready and throws after the timeout;
  \<open>loadImage\<close> rejects with the error event of the image. The image element is identified
  with its source.\<close>

definition waitForOpenCV :: "PipelineEnv \<Rightarrow> jserror option" where
  "waitForOpenCV env =
     (if openCVReady env then None else Some (Error ''OpenCV initialization timed out''))"

definition loadImage :: "PipelineEnv \<Rightarrow> string \<Rightarrow> jserror + string" where
  "loadImage env src = (case imageLoads env src of Some err \<Rightarrow> Inl err | None \<Rightarrow> Inr src)"

record ProcessedImage =
  id' :: string
  label :: string
  description :: string
  dataUrl :: string

record RawSide =
  imageUrl :: string
  features :: "jsval option"
  detection :: DetectionResult
  metrics :: EvaluationMetrics

record EnhancedSide = RawSide +
  enhancedImage :: ProcessedImage

record FeatureImprovement =
  keypoints :: jsnum
  texture :: jsnum
  quality :: jsnum

record DetectionImprovement =
  accuracy :: real
  precision :: real
  recall :: real
  mAP :: real
  detectionCount :: int

record Comparison =
  featureImprovement :: FeatureImprovement
  detectionImprovement :: DetectionImprovement
  overallImprovement :: jsnum

record PipelineResult =
  raw :: RawSide
  enhanced :: EnhancedSide
  comparison :: Comparison
  timestamp :: real

subsection \<open>calculateFeatureImprovement\<close>

fun getProp :: "jsval \<Rightarrow> string \<Rightarrow> jserror + jsval" where
  "getProp JUndefined k =
     Inl (TypeError (''Cannot read properties of undefined (reading '' @ k @ '')''))"
| "getProp (JObj props) k = Inr (case map_of props k of Some v \<Rightarrow> v | None \<Rightarrow> JUndefined)"
| "getProp v k = Inr JUndefined"

fun getPath :: "jsval \<Rightarrow> string list \<Rightarrow> jserror + jsval" where
  "getPath v [] = Inr v"
| "getPath v (k # ks) = (case getProp v k of Inl e \<Rightarrow> Inl e | Inr v' \<Rightarrow> getPath v' ks)"

definition bindE :: "jserror + 'a \<Rightarrow> ('a \<Rightarrow> jserror + 'b) \<Rightarrow> jserror + 'b" where
  "bindE m f = (case m of Inl e \<Rightarrow> Inl e | Inr v \<Rightarrow> f v)"

text \<open>The operand of an addition: a number is itself, \<open>undefined\<close> is \<open>NaN\<close>. (Other
  operands do not occur in objects of either the declared or the actual shape.)\<close>

fun toNumber :: "jsval \<Rightarrow> jsnum" where
  "toNumber (JNum n) = n"
| "toNumber v = NaN"

text \<open>\<open>o.a.b.p + o.a.b.q + o.a.b.r\<close>, read left to right.\<close>

definition sum3 :: "jsval \<Rightarrow> string list \<Rightarrow> string \<Rightarrow> string \<Rightarrow> string \<Rightarrow> jserror + jsnum" where
  "sum3 obj path p q r =
     bindE (getPath obj (path @ [p])) (\<lambda>a.
     bindE (getPath obj (path @ [q])) (\<lambda>b.
     bindE (getPath obj (path @ [r])) (\<lambda>c.
       Inr (toNumber a + toNumber b + toNumber c))))"

text \<open>\<open>o.path.reduce((a, b) => a + b, 0)\<close>.\<close>

definition reduceSum :: "jsval \<Rightarrow> string list \<Rightarrow> jserror + jsnum" where
  "reduceSum obj path =
     bindE (getPath obj path) (\<lambda>v.
       case v of
         JArr xs \<Rightarrow> Inr (fold (\<lambda>b a. a + toNumber b) xs (Fin 0))
       | JUndefined \<Rightarrow>
           Inl (TypeError ''Cannot read properties of undefined (reading reduce)'')
       | _ \<Rightarrow> Inl (TypeError ''reduce is not a function''))"

definition percentChange :: "jsnum \<Rightarrow> jsnum \<Rightarrow> jsnum" where
  "percentChange rawValue enhancedValue =
     (if jgt rawValue (Fin 0)
      then ((enhancedValue - rawValue) / rawValue) * Fin 100
      else Fin 0)"

definition calculateFeatureImprovement ::
  "jsval option \<Rightarrow> jsval option \<Rightarrow> jserror + FeatureImprovement" where
  "calculateFeatureImprovement rawF enhancedF =
     (case (rawF, enhancedF) of
        (Some rawObj, Some enhancedObj) \<Rightarrow>
          bindE (sum3 rawObj [''keypoints'', ''enhanced''] ''orb'' ''fast'' ''sift'')
            (\<lambda>rawKeypoints.
          bindE (sum3 enhancedObj [''keypoints'', ''enhanced''] ''orb'' ''fast'' ''sift'')
            (\<lambda>enhancedKeypoints.
          bindE (reduceSum rawObj [''texture'', ''enhanced'', ''hog'', ''descriptor''])
            (\<lambda>rawTexture.
          bindE (reduceSum enhancedObj [''texture'', ''enhanced'', ''hog'', ''descriptor''])
            (\<lambda>enhancedTexture.
          bindE (sum3 rawObj [''quality'', ''enhanced'']
                   ''brightness'' ''contrast'' ''sharpness'')
            (\<lambda>rawQuality.
          bindE (sum3 enhancedObj [''quality'', ''enhanced'']
                   ''brightness'' ''contrast'' ''sharpness'')
            (\<lambda>enhancedQuality.
          Inr \<lparr>keypoints = percentChange rawKeypoints enhancedKeypoints,
               texture = percentChange rawTexture enhancedTexture,
               quality = percentChange rawQuality enhancedQuality\<rparr>))))))
      | _ \<Rightarrow> Inr \<lparr>keypoints = Fin 0, texture = Fin 0, quality = Fin 0\<rparr>)"

subsection \<open>runPipeline\<close>

definition emit :: "bool \<Rightarrow> PipelineProgress \<Rightarrow> effect list \<Rightarrow> effect list" where
  "emit onProgress event trace = (if onProgress then trace @ [Observed event] else trace)"

text \<open>
  \<open>runPipeline env rawImageUrl onProgress\<close> returns the effects of the run, in order, and
  either the error it rejects with or its result. \<open>onProgress\<close> tells whether the caller
  passed an observer; the observer is taken to return normally. The dynamic import of
  \<open>metricsCalculation\<close>, a module the file already imports statically, is taken to succeed.
  The fields that hold wall-clock differences (\<open>processingTime\<close>, \<open>totalProcessingTime\<close>) are
  left out.
\<close>

definition runPipeline ::
  "PipelineEnv \<Rightarrow> string \<Rightarrow> bool \<Rightarrow> effect list \<times> (jserror + PipelineResult)" where
  "runPipeline env rawImageUrl onProgress =
     (let t1 = emit onProgress
                 \<lparr>stage = Stage_enhancement, progress = 10,
                  message = ''Enhancing image...'', currentImage = None\<rparr> []
               @ [WaitForOpenCV]
      in case waitForOpenCV env of Some e \<Rightarrow> (t1, Inl e) | None \<Rightarrow>
     (let t2 = t1 @ [LoadImage rawImageUrl]
      in case loadImage env rawImageUrl of Inl e \<Rightarrow> (t2, Inl e) | Inr rawImg \<Rightarrow>
     (let t3 = t2 @ [ApplyCompositeEnhancement rawImg]
      in case compositeEnhancement env rawImg of Inl e \<Rightarrow> (t3, Inl e) | Inr enhancedUrl \<Rightarrow>
     (let enhancedImage =
            \<lparr>id' = ''pipeline-enhanced'', label = ''Full Enhancement'',
             description = ''LAB CLAHE + Gamma'', dataUrl = enhancedUrl\<rparr>;
          t4 = emit onProgress
                 \<lparr>stage = Stage_feature_extraction, progress = 30,
                  message = ''Extracting features from raw image...'',
                  currentImage = Some Image_raw\<rparr> t3
               @ [ExtractComprehensiveFeatures rawImageUrl];
          rawFeatures = extractComprehensiveFeatures (pixels env) rawImageUrl ''Raw Image'';
          t5 = emit onProgress
                 \<lparr>stage = Stage_feature_extraction, progress = 50,
                  message = ''Extracting features from enhanced image...'',
                  currentImage = Some Image_enhanced\<rparr> t4
               @ [ExtractComprehensiveFeatures enhancedUrl];
          enhancedFeatures =
            extractComprehensiveFeatures (pixels env) enhancedUrl ''Enhanced Image'';
          t6 = emit onProgress
                 \<lparr>stage = Stage_detection, progress = 60,
                  message = ''Running YOLO detection on raw image...'',
                  currentImage = Some Image_raw\<rparr> t5
               @ [LoadModel]
      in case modelLoads env of Some e \<Rightarrow> (t6, Inl e) | None \<Rightarrow>
     (let t7 = t6 @ [Detect rawImageUrl]
      in case yoloDetect env rawImageUrl of Inl e \<Rightarrow> (t7, Inl e) | Inr rawDetection \<Rightarrow>
     (let t8 = emit onProgress
                 \<lparr>stage = Stage_detection, progress = 80,
                  message = ''Running YOLO detection on enhanced image...'',
                  currentImage = Some Image_enhanced\<rparr> t7
               @ [Detect enhancedUrl]
      in case yoloDetect env enhancedUrl of Inl e \<Rightarrow> (t8, Inl e)
         | Inr enhancedDetection \<Rightarrow>
     (let t9 = emit onProgress
                 \<lparr>stage = Stage_comparison, progress = 90,
                  message = ''Calculating metrics and comparison...'',
                  currentImage = None\<rparr> t8;
          rawGroundTruth =
            generateSyntheticGroundTruth (imageWidth rawDetection)
              (imageHeight rawDetection) None;
          enhancedGroundTruth =
            generateSyntheticGroundTruth (imageWidth enhancedDetection)
              (imageHeight enhancedDetection) None;
          rawMetrics = calculateMetrics (boxes rawDetection) rawGroundTruth;
          enhancedMetrics = calculateMetrics (boxes enhancedDetection) enhancedGroundTruth
      in case calculateFeatureImprovement rawFeatures enhancedFeatures of
           Inl e \<Rightarrow> (t9, Inl e)
         | Inr improvement \<Rightarrow>
     (let featureImprovement = improvement;
          detectionImprovement =
            \<lparr>accuracy = EvaluationMetrics.accuracy enhancedMetrics
                         - EvaluationMetrics.accuracy rawMetrics,
             precision = EvaluationMetrics.precision enhancedMetrics
                          - EvaluationMetrics.precision rawMetrics,
             recall = EvaluationMetrics.recall enhancedMetrics
                       - EvaluationMetrics.recall rawMetrics,
             mAP = EvaluationMetrics.mAP enhancedMetrics - EvaluationMetrics.mAP rawMetrics,
             detectionCount = int (length (boxes enhancedDetection))
                              - int (length (boxes rawDetection))\<rparr>;
          overallImprovement =
            keypoints featureImprovement * Fin 0.3
            + texture featureImprovement * Fin 0.2
            + quality featureImprovement * Fin 0.2
            + Fin (mAP detectionImprovement) * Fin 0.3;
          t10 = emit onProgress
                  \<lparr>stage = Stage_complete, progress = 100,
                   message = ''Pipeline complete!'', currentImage = None\<rparr> t9
      in (t10,
          Inr \<lparr>raw = \<lparr>imageUrl = rawImageUrl, features = rawFeatures,
                       detection = rawDetection, metrics = rawMetrics\<rparr>,
               enhanced = \<lparr>imageUrl = enhancedUrl, features = enhancedFeatures,
                            detection = enhancedDetection, metrics = enhancedMetrics,
                            enhancedImage = enhancedImage\<rparr>,
               comparison = \<lparr>featureImprovement = featureImprovement,
                              detectionImprovement = detectionImprovement,
                              overallImprovement = overallImprovement\<rparr>,
               timestamp = dateNow env\<rparr>)))))))))"

section \<open>The statistics in the words of the specification\<close>

text \<open>
  The specification describes \<open>complexity\<close> as the fraction of right/down neighbour pairs whose
  gray difference exceeds 30. \<open>neighbourPairs\<close> lists those pairs and \<open>pairFraction\<close> is that
  fraction; they are compared with \<open>calculateImageComplexity\<close> below.
\<close>

definition neighbourPairs :: "int \<Rightarrow> int \<Rightarrow> ((int \<times> int) \<times> (int \<times> int)) list" where
  "neighbourPairs w h =
     concat (map (\<lambda>y. map (\<lambda>x. ((x, y), (x + 1, y))) [0..w - 2]) [0..h - 1])
     @ concat (map (\<lambda>y. map (\<lambda>x. ((x, y), (x, y + 1))) [0..w - 1]) [0..h - 2])"

definition pairExceeds :: "nat list \<Rightarrow> int \<Rightarrow> (int \<times> int) \<times> (int \<times> int) \<Rightarrow> bool" where
  "pairExceeds d w pq =
     (case pq of ((x, y), (x', y')) \<Rightarrow> \<bar>getGrayValue d w x y - getGrayValue d w x' y'\<bar> > 30)"

definition pairFraction :: "nat list \<Rightarrow> int \<Rightarrow> int \<Rightarrow> jsnum" where
  "pairFraction d w h =
     Fin (real (length (filter (pairExceeds d w) (neighbourPairs w h))))
     / Fin (real (length (neighbourPairs w h)))"

text \<open>What the loop of \<open>calculateImageComplexity\<close> counts: the pixels outside the last row
  and the last column that differ by more than 30 from their right or their down neighbour.\<close>

definition edgePixels :: "nat list \<Rightarrow> int \<Rightarrow> int \<Rightarrow> (int \<times> int) set" where
  "edgePixels d w h =
     {(x, y). 0 \<le> x \<and> x < w - 1 \<and> 0 \<le> y \<and> y < h - 1 \<and> complexityEdge d w x y}"

text \<open>The interior pixels (a one pixel border excluded) and the mean gradient magnitude
  over them.\<close>

definition interior :: "int \<Rightarrow> int \<Rightarrow> (int \<times> int) set" where
  "interior w h = {(x, y). 1 \<le> x \<and> x < w - 1 \<and> 1 \<le> y \<and> y < h - 1}"

definition meanGradientMagnitude :: "nat list \<Rightarrow> int \<Rightarrow> int \<Rightarrow> real" where
  "meanGradientMagnitude d w h =
     (\<Sum>(x, y) \<in> interior w h. gradientMagnitude d w x y) / real (card (interior w h))"

text \<open>The number of 8 x 8 cells that the two outer loops of \<open>computeHOG\<close> visit: they start
  at 8 and stop before \<open>width - 8\<close> and \<open>height - 8\<close>.\<close>

definition hogCells :: "int \<Rightarrow> int \<Rightarrow> nat" where
  "hogCells w h = nat ((w - 9) div 8) * nat ((h - 9) div 8)"

text \<open>The number a finite JavaScript number denotes, and the inputs of
  \<open>constructFeatureVector\<close> whose numbers are all finite.\<close>

fun toReal :: "jsnum \<Rightarrow> real" where
  "toReal (Fin r) = r"
| "toReal _ = 0"

definition finiteInputs :: "KeypointStats \<Rightarrow> StatisticalFeatures \<Rightarrow> bool" where
  "finiteInputs kp stat =
     (isFinite (orb kp) \<and> isFinite (fast kp) \<and> isFinite (sift kp)
      \<and> list_all isFinite (mean (colorMoments stat))
      \<and> list_all isFinite (std (colorMoments stat)))"


section \<open>Example images\<close>

text \<open>A 2 x 2 image of mid-gray pixels, and a 2 x 2 image whose top-left pixel is white and
  whose other pixels are black.\<close>

definition flat2x2 :: "nat list" where
  "flat2x2 = replicate 16 128"

definition corner2x2 :: "nat list" where
  "corner2x2 = [255, 255, 255, 255, 0, 0, 0, 255, 0, 0, 0, 255, 0, 0, 0, 255]"

definition flat3x3 :: "nat list" where
  "flat3x3 = replicate 36 128"

text \<open>Two black images, 17 x 17 and 25 x 25 pixels, and a black image of 33 x 17 pixels.\<close>

definition black17 :: "nat list" where
  "black17 = replicate (4 * 17 * 17) 0"

definition black25 :: "nat list" where
  "black25 = replicate (4 * 25 * 25) 0"

definition black33x17 :: "nat list" where
  "black33x17 = replicate (4 * 33 * 17) 0"

section \<open>Example runs\<close>

text \<open>
  A run in which every awaited service succeeds. The detector finds nothing in the raw
  image and one box of confidence 0.5 in the enhanced image. The canvas yields the pixels
  of the raw image but no 2d context for the enhanced one, so the second feature
  extraction resolves to \<open>null\<close>.
\<close>

definition halfBox :: BoundingBox where
  "halfBox = \<lparr>boxX = 0, boxY = 0, boxWidth = 1, boxHeight = 1, confidence = 0.5,
              class' = ''person'', classId = 0\<rparr>"

definition detections :: "string \<Rightarrow> DetectionResult" where
  "detections url =
     \<lparr>boxes = (if url = ''enhanced'' then [halfBox] else []),
      imageWidth = 3, imageHeight = 3, processingTime = 1, modelVersion = ''yolo''\<rparr>"

definition halfEnv :: PipelineEnv where
  "halfEnv =
     \<lparr>openCVReady = True,
      imageLoads = (\<lambda>src. None),
      compositeEnhancement = (\<lambda>img. Inr ''enhanced''),
      pixels = (\<lambda>url. if url = ''raw'' then Some (flat3x3, 3, 3) else None),
      modelLoads = None,
      yoloDetect = (\<lambda>url. Inr (detections url)),
      dateNow = 0\<rparr>"

text \<open>The same run with the pixels of both images available.\<close>

definition fullEnv :: PipelineEnv where
  "fullEnv = halfEnv\<lparr>pixels := (\<lambda>url. Some (flat3x3, 3, 3))\<rparr>"

text \<open>The seven progress events, as the source writes them.\<close>

definition progressEvents :: "PipelineProgress list" where
  "progressEvents =
     [\<lparr>stage = Stage_enhancement, progress = 10,
       message = ''Enhancing image...'', currentImage = None\<rparr>,
      \<lparr>stage = Stage_feature_extraction, progress = 30,
       message = ''Extracting features from raw image...'',
       currentImage = Some Image_raw\<rparr>,
      \<lparr>stage = Stage_feature_extraction, progress = 50,
       message = ''Extracting features from enhanced image...'',
       currentImage = Some Image_enhanced\<rparr>,
      \<lparr>stage = Stage_detection, progress = 60,
       message = ''Running YOLO detection on raw image...'',
       currentImage = Some Image_raw\<rparr>,
      \<lparr>stage = Stage_detection, progress = 80,
       message = ''Running YOLO detection on enhanced image...'',
       currentImage = Some Image_enhanced\<rparr>,
      \<lparr>stage = Stage_comparison, progress = 90,
       message = ''Calculating metrics and comparison...'', currentImage = None\<rparr>,
      \<lparr>stage = Stage_complete, progress = 100,
       message = ''Pipeline complete!'', currentImage = None\<rparr>]"

text \<open>The progress events among the effects of a run, in order.\<close>

fun observations :: "effect list \<Rightarrow> PipelineProgress list" where
  "observations [] = []"
| "observations (Observed p # rest) = p # observations rest"
| "observations (other # rest) = observations rest"

section \<open>Properties\<close>

lemma fold_count_upto:
  "fold (\<lambda>x ec. if P x then ec + 1 else ec) xs (n::nat) = n + length (filter P xs)"
  by (induction xs arbitrary: n) auto

subsection \<open>Loops as sums\<close>

lemma fold_add_sum_list:
  "fold (\<lambda>x es. es + f x) xs (a::real) = a + sum_list (map f xs)"
  by (induction xs arbitrary: a) auto

lemma fold_fold_add:
  "fold (\<lambda>y es. fold (\<lambda>x es. es + f x y) xs es) ys (a::real)
     = a + sum_list (map (\<lambda>y. sum_list (map (\<lambda>x. f x y) xs)) ys)"
  by (induction ys arbitrary: a) (auto simp: fold_add_sum_list)

lemma fold_fold_count:
  "fold (\<lambda>y ec. fold (\<lambda>x ec. if P x y then ec + 1 else ec) xs ec) ys (n::nat)
     = n + sum_list (map (\<lambda>y. length (filter (\<lambda>x. P x y) xs)) ys)"
  by (induction ys arbitrary: n) (auto simp: fold_count_upto)

lemma sum_list_upto: "sum_list (map f [a..b]) = sum f {a..b}"
  by (simp add: sum_list_distinct_conv_sum_set)

subsection \<open>Complexity and edge density\<close>

lemma interior_prod: "interior w h = {1..w - 2} \<times> {1..h - 2}"
  by (auto simp: interior_def)

lemma card_interior:
  "3 \<le> w \<Longrightarrow> 3 \<le> h \<Longrightarrow> card (interior w h) = nat ((w - 2) * (h - 2))"
  by (simp add: interior_prod card_cartesian_product nat_mult_distrib)

lemma edgeStrength_sum:
  "fold (\<lambda>y es. fold (\<lambda>x es. es + gradientMagnitude d w x y) [1..w - 2] es)
        [1..h - 2] (0::real)
   = (\<Sum>(x, y) \<in> interior w h. gradientMagnitude d w x y)"
proof -
  have "(\<Sum>y = 1..h - 2. \<Sum>x = 1..w - 2. gradientMagnitude d w x y)
        = (\<Sum>x = 1..w - 2. \<Sum>y = 1..h - 2. gradientMagnitude d w x y)"
    by (rule sum.swap)
  also have "\<dots> = (\<Sum>(x, y) \<in> {1..w - 2} \<times> {1..h - 2}. gradientMagnitude d w x y)"
    by (simp add: sum.cartesian_product)
  finally show ?thesis
    by (simp add: fold_fold_add sum_list_upto interior_prod)
qed

lemma edgePixels_card:
  "card (edgePixels d w h)
   = sum_list (map (\<lambda>y. length (filter (\<lambda>x. complexityEdge d w x y) [0..w - 2]))
                   [0..h - 2])"
proof -
  let ?row = "\<lambda>y. {x \<in> {0..w - 2}. complexityEdge d w x y}"
  have e: "edgePixels d w h = (SIGMA y:{0..h - 2}. ?row y)\<inverse>"
    by (auto simp: edgePixels_def)
  have "card (edgePixels d w h) = card (SIGMA y:{0..h - 2}. ?row y)"
    unfolding e by (simp add: card_inverse)
  also have "\<dots> = (\<Sum>y \<in> {0..h - 2}. card (?row y))"
  proof (rule card_SigmaI)
    show "finite {0..h - 2}" by simp
    show "\<forall>y\<in>{0..h - 2}. finite (?row y)"
    proof
      fix y
      show "finite (?row y)"
        by (rule finite_subset[of _ "{0..w - 2}"]) auto
    qed
  qed
  also have "\<dots> = (\<Sum>y \<in> {0..h - 2}.
                      length (filter (\<lambda>x. complexityEdge d w x y) [0..w - 2]))"
  proof (rule sum.cong[OF refl])
    fix y
    have "distinct (filter (\<lambda>x. complexityEdge d w x y) [0..w - 2])" by simp
    then have "length (filter (\<lambda>x. complexityEdge d w x y) [0..w - 2])
               = card (set (filter (\<lambda>x. complexityEdge d w x y) [0..w - 2]))"
      by (simp only: distinct_card)
    then show "card (?row y) = length (filter (\<lambda>x. complexityEdge d w x y) [0..w - 2])"
      by simp
  qed
  finally show ?thesis by (simp add: sum_list_upto)
qed

lemma complexity_corner2x2: "calculateImageComplexity corner2x2 2 2 = Fin (1 / 4)"
  by (simp add: calculateImageComplexity_def complexityEdge_def getGrayValue_def
      corner2x2_def divide_jsnum_def)

text \<open>
  C5, as stated, fails: on the 2 x 2 image with one white pixel, two of the four
  right/down neighbour pairs differ by more than 30 (one half), while the code returns
  one quarter: it counts pixels, not pairs, and divides by the number of all pixels.
\<close>

theorem complexity_is_not_pair_fraction:
  "calculateImageComplexity corner2x2 2 2 = Fin (1 / 4)
   \<and> pairFraction corner2x2 2 2 = Fin (1 / 2)
   \<and> calculateImageComplexity corner2x2 2 2 \<noteq> pairFraction corner2x2 2 2"
proof -
  have p: "pairFraction corner2x2 2 2 = Fin (1 / 2)"
    by (simp add: pairFraction_def neighbourPairs_def pairExceeds_def getGrayValue_def
        corner2x2_def divide_jsnum_def upto.simps)
  show ?thesis
    by (simp add: complexity_corner2x2 p)
qed

text \<open>
  C5, amended: \<open>complexity\<close> is the number of pixels outside the last row and column whose
  gray value differs by more than 30 from the right or the down neighbour, divided by the
  number of all pixels \<open>width * height\<close>; for an image with interior pixels (width and
  height at least 3), \<open>edgeDensity\<close> is the mean gradient magnitude over the interior
  pixels divided by 255.
\<close>

theorem complexity_edgeDensity:
  "calculateImageComplexity d w h
     = Fin (real (card (edgePixels d w h))) / Fin (real_of_int (w * h))
   \<and> (3 \<le> w \<and> 3 \<le> h \<longrightarrow>
        calculateEdgeDensity d w h = Fin (meanGradientMagnitude d w h / 255))"
proof (intro conjI impI)
  show "calculateImageComplexity d w h
     = Fin (real (card (edgePixels d w h))) / Fin (real_of_int (w * h))"
    by (simp add: calculateImageComplexity_def fold_fold_count edgePixels_card)
next
  assume a: "3 \<le> w \<and> 3 \<le> h"
  then have nz: "(w - 2) * (h - 2) \<noteq> 0" by simp
  from a have c: "real (card (interior w h)) = real_of_int ((w - 2) * (h - 2))"
    by (simp add: card_interior)
  show "calculateEdgeDensity d w h = Fin (meanGradientMagnitude d w h / 255)"
    using nz
    by (simp add: calculateEdgeDensity_def edgeStrength_sum meanGradientMagnitude_def
        divide_jsnum_def c del: of_int_mult)
qed

theorem complexity_edgeDensity_witness:
  "card (edgePixels corner2x2 2 2) = 1
   \<and> calculateEdgeDensity flat3x3 3 3 = Fin (meanGradientMagnitude flat3x3 3 3 / 255)"
proof -
  have "Fin (real (card (edgePixels corner2x2 2 2))) / Fin (real_of_int (2 * 2)) = Fin (1 / 4)"
    using complexity_edgeDensity[of corner2x2 2 2] by (simp add: complexity_corner2x2)
  then have "card (edgePixels corner2x2 2 2) = 1"
    by (simp add: divide_jsnum_def)
  moreover have "calculateEdgeDensity flat3x3 3 3
                 = Fin (meanGradientMagnitude flat3x3 3 3 / 255)"
    using complexity_edgeDensity[of flat3x3 3 3] by simp
  ultimately show ?thesis by simp
qed

subsection \<open>Degenerate images\<close>

text \<open>
  C7: the analyzers never raise, but they are not numeric on every well-formed image. On
  the 2 x 2 mid-gray image there is no interior pixel, \<open>(width - 2) * (height - 2)\<close> is 0,
  and both \<open>analyzeImageQuality\<close> and \<open>calculateEdgeDensity\<close> divide 0 by 0: the sharpness
  and the edge density are \<open>NaN\<close>, not 0.
\<close>

theorem analyzers_NaN_on_2x2:
  "wellFormed flat2x2 2 2
   \<and> sharpness (analyzeImageQuality flat2x2 2 2) = NaN
   \<and> calculateEdgeDensity flat2x2 2 2 = NaN
   \<and> \<not> isFinite (sharpness (analyzeImageQuality flat2x2 2 2))"
proof -
  have s: "sharpness (analyzeImageQuality flat2x2 2 2) = NaN"
    by (simp add: analyzeImageQuality_def divide_jsnum_def qualityStep_def round2_def
        times_jsnum_def upto.simps Let_def)
  have e: "calculateEdgeDensity flat2x2 2 2 = NaN"
    by (simp add: calculateEdgeDensity_def divide_jsnum_def)
  have w: "wellFormed flat2x2 2 2"
    by (simp add: wellFormed_def flat2x2_def list_all_iff)
  show ?thesis by (simp add: s e w)
qed

text \<open>
  C10: on the same image the three keypoint estimates are \<open>NaN\<close> (the floor of a sum with
  the \<open>NaN\<close> edge density), so none of the lower bounds 30, 80, 20 holds.
\<close>

theorem keypoints_NaN_on_2x2:
  "wellFormed flat2x2 2 2
   \<and> orb (extractKeypoints flat2x2 2 2) = NaN
   \<and> fast (extractKeypoints flat2x2 2 2) = NaN
   \<and> sift (extractKeypoints flat2x2 2 2) = NaN
   \<and> \<not> jge (orb (extractKeypoints flat2x2 2 2)) (Fin 30)
   \<and> \<not> jge (fast (extractKeypoints flat2x2 2 2)) (Fin 80)
   \<and> \<not> jge (sift (extractKeypoints flat2x2 2 2)) (Fin 20)"
proof -
  have e: "calculateEdgeDensity flat2x2 2 2 = NaN"
    by (simp add: calculateEdgeDensity_def divide_jsnum_def)
  have c: "calculateImageComplexity flat2x2 2 2 = Fin 0"
    by (simp add: calculateImageComplexity_def complexityEdge_def getGrayValue_def
        flat2x2_def divide_jsnum_def)
  have w: "wellFormed flat2x2 2 2"
    by (simp add: wellFormed_def flat2x2_def list_all_iff)
  show ?thesis
    by (simp add: extractKeypoints_def e c w times_jsnum_def plus_jsnum_def jge_def)
qed

subsection \<open>Local binary patterns\<close>

lemma lbp_fold_range:
  "0 \<le> fold (\<lambda>i v. if P i then v OR push_bit i 1 else v) [0..<n] (0::int)
   \<and> fold (\<lambda>i v. if P i then v OR push_bit i 1 else v) [0..<n] (0::int) < 2 ^ n"
proof (induction n)
  case 0
  show ?case by simp
next
  case (Suc n)
  let ?v = "fold (\<lambda>i v. if P i then v OR push_bit i 1 else v) [0..<n] (0::int)"
  from Suc have nonneg: "0 \<le> ?v" and lt: "?v < 2 ^ n" by simp_all
  have "(2::int) ^ n \<le> 2 ^ Suc n" by simp
  with lt have lt': "?v < 2 ^ Suc n" by linarith
  have "?v OR push_bit n 1 < 2 ^ Suc n"
    by (rule OR_upper[OF nonneg lt']) (simp add: push_bit_eq_mult)
  then show ?case using nonneg lt' by simp
qed

lemma lbpValue_range: "0 \<le> lbpValue d w x y \<and> lbpValue d w x y < 256"
  using lbp_fold_range[of _ 8] by (simp add: lbpValue_def Let_def)

lemma sum_list_increment:
  "i < length xs \<Longrightarrow> sum_list (xs[i := xs ! i + 1]) = sum_list xs + (1::nat)"
proof (induction xs arbitrary: i)
  case Nil
  then show ?case by simp
next
  case (Cons x xs)
  then show ?case by (cases i) simp_all
qed

text \<open>Each interior pixel increments one of the 256 bins: the code is below 256, so the
  increment never falls outside the array.\<close>

lemma counts_step:
  fixes hist :: "nat list"
  assumes "length hist = 256"
  shows "length (let v = nat (lbpValue d w x y) in hist[v := hist ! v + 1]) = 256
       \<and> sum_list (let v = nat (lbpValue d w x y) in hist[v := hist ! v + 1])
           = sum_list hist + 1"
proof -
  have "nat (lbpValue d w x y) < length hist"
    using lbpValue_range[of d w x y] assms by arith
  then have "sum_list (hist[nat (lbpValue d w x y) := hist ! nat (lbpValue d w x y) + 1])
             = sum_list hist + 1"
    by (rule sum_list_increment)
  then show ?thesis using assms by (simp add: Let_def)
qed

lemma counts_row:
  fixes hist :: "nat list"
  shows "length hist = 256 \<Longrightarrow>
   length (fold (\<lambda>x hist. (let v = nat (lbpValue d w x y) in hist[v := hist ! v + 1]))
                xs hist) = 256
   \<and> sum_list (fold (\<lambda>x hist. (let v = nat (lbpValue d w x y) in hist[v := hist ! v + 1]))
                     xs hist)
       = sum_list hist + length xs"
proof (induction xs arbitrary: hist)
  case Nil
  then show ?case by simp
next
  case (Cons x xs)
  from counts_step[OF Cons.prems, of d w x y]
    Cons.IH[of "let v = nat (lbpValue d w x y) in hist[v := hist ! v + 1]"]
  show ?case by simp
qed

lemma counts_rows:
  fixes hist :: "nat list"
  shows "length hist = 256 \<Longrightarrow>
   length (fold (\<lambda>y hist. fold (\<lambda>x hist. (let v = nat (lbpValue d w x y)
                                            in hist[v := hist ! v + 1])) xs hist)
                ys hist) = 256
   \<and> sum_list (fold (\<lambda>y hist. fold (\<lambda>x hist. (let v = nat (lbpValue d w x y)
                                                 in hist[v := hist ! v + 1])) xs hist)
                     ys hist)
       = sum_list hist + length ys * length xs"
proof (induction ys arbitrary: hist)
  case Nil
  then show ?case by simp
next
  case (Cons y ys)
  let ?h = "fold (\<lambda>x hist. (let v = nat (lbpValue d w x y) in hist[v := hist ! v + 1]))
                 xs hist"
  from counts_row[OF Cons.prems, of d w y xs]
  have 1: "length ?h = 256" and 2: "sum_list ?h = sum_list hist + length xs"
    by simp_all
  from Cons.IH[OF 1] 2 show ?case by simp
qed

lemma lbpCounts_total:
  "length (lbpCounts d w h) = 256
   \<and> sum_list (lbpCounts d w h) = nat (h - 2) * nat (w - 2)"
  using counts_rows[of "replicate 256 0" d w "[1..w - 2]" "[1..h - 2]"]
  by (simp add: lbpCounts_def)

lemma fold_add_real: "fold (\<lambda>val acc. acc + real val) xs a = a + real (sum_list xs)"
  by (induction xs arbitrary: a) auto

lemma sum_list_map_divide: "sum_list (map (\<lambda>v. real v / c) xs) = real (sum_list xs) / c"
  by (induction xs) (auto simp: add_divide_distrib)

lemma guarded_ratio_near_one:
  fixes n :: real
  assumes "1 \<le> n"
  shows "\<bar>n / (n + 1 / 1000000) - 1\<bar> \<le> 1 / 1000000"
proof -
  have "n / (n + 1 / 1000000) - 1 = - ((1 / 1000000) / (n + 1 / 1000000))"
    using assms by (simp add: field_simps)
  moreover have "(1 / 1000000) / (n + 1 / 1000000) \<le> (1 / 1000000) / 1"
    using assms by (intro divide_left_mono) auto
  moreover have "0 \<le> (1 / 1000000) / (n + 1 / 1000000)"
    using assms by simp
  ultimately show ?thesis by simp
qed

text \<open>
  C9: for an image with at least one interior pixel (width and height at least 3) the
  histogram of \<open>computeLBP\<close> has 256 entries, none negative, and they sum to 1 within
  \<open>1e-6\<close> (in exact arithmetic the sum is \<open>n / (n + 1e-6)\<close> for \<open>n\<close> interior pixels).
\<close>

theorem lbp_histogram_distribution:
  assumes "3 \<le> w" and "3 \<le> h"
  shows "length (histogram (computeLBP d w h)) = 256
       \<and> (\<forall>v \<in> set (histogram (computeLBP d w h)). 0 \<le> v)
       \<and> \<bar>sum_list (histogram (computeLBP d w h)) - 1\<bar> \<le> 1 / 1000000"
proof -
  let ?n = "real (nat (h - 2) * nat (w - 2))"
  have n1: "1 \<le> ?n"
  proof -
    have "1 \<le> nat (h - 2)" "1 \<le> nat (w - 2)" using assms by simp_all
    then have "1 * 1 \<le> nat (h - 2) * nat (w - 2)" by (rule mult_le_mono)
    then show ?thesis by (simp only: mult_1 of_nat_1[symmetric, where 'a=real] of_nat_le_iff)
  qed
  have hist: "histogram (computeLBP d w h)
              = map (\<lambda>val. real val / (?n + 1 / 1000000)) (lbpCounts d w h)"
    by (simp add: computeLBP_def Let_def fold_add_real lbpCounts_total)
  have s: "sum_list (histogram (computeLBP d w h)) = ?n / (?n + 1 / 1000000)"
    unfolding hist by (simp add: sum_list_map_divide lbpCounts_total)
  have b: "\<bar>?n / (?n + 1 / 1000000) - 1\<bar> \<le> 1 / 1000000"
    by (rule guarded_ratio_near_one[OF n1])
  have pos: "\<forall>v \<in> set (histogram (computeLBP d w h)). 0 \<le> v"
    unfolding hist using n1 by auto
  show ?thesis using b pos by (simp add: s) (simp add: hist lbpCounts_total)
qed

theorem lbp_histogram_distribution_witness:
  "length (histogram (computeLBP flat3x3 3 3)) = 256
   \<and> \<bar>sum_list (histogram (computeLBP flat3x3 3 3)) - 1\<bar> \<le> 1 / 1000000"
  using lbp_histogram_distribution[of 3 3 flat3x3] by simp

subsection \<open>Gamma lookup tables\<close>

lemma lut_entry:
  assumes "0 < gamma" and "i < 256"
  shows "toUint8 (jfloor (jpow (real i / 255) (Fin 1 / Fin gamma) * Fin 255))
         = nat \<lfloor>(real i / 255) powr (1 / gamma) * 255\<rfloor>
       \<and> 0 \<le> \<lfloor>(real i / 255) powr (1 / gamma) * 255\<rfloor>
       \<and> \<lfloor>(real i / 255) powr (1 / gamma) * 255\<rfloor> \<le> 255"
proof -
  let ?x = "real i / 255"
  let ?p = "?x powr (1 / gamma)"
  have x0: "0 \<le> ?x" by simp
  have x1: "?x \<le> 1" using assms(2) by simp
  have p0: "0 \<le> ?p" by simp
  have p1: "?p \<le> 1" using assms(1) x0 x1 by (intro powr_le1) auto
  have pw: "jpow ?x (Fin 1 / Fin gamma) = Fin ?p"
    using assms(1) by (cases "i = 0") (simp_all add: divide_jsnum_def)
  have f0: "0 \<le> \<lfloor>?p * 255\<rfloor>" using p0 by simp
  have "?p * 255 \<le> 255" using p1 by simp
  then have f1: "\<lfloor>?p * 255\<rfloor> \<le> 255" by (simp add: floor_le_iff)
  have "toUint8 (jfloor (jpow ?x (Fin 1 / Fin gamma) * Fin 255)) = nat \<lfloor>?p * 255\<rfloor>"
    using f0 f1 by (simp add: pw times_jsnum_def)
  then show ?thesis using f0 f1 by simp
qed

lemma composite_is_gamma: "applyCompositeEnhancement_lut = applyGamma_lut 1.8"
  by (simp add: applyCompositeEnhancement_lut_def applyGamma_lut_def Let_def)

lemma lut_nth:
  assumes "0 < gamma" and "i < 256"
  shows "int (applyGamma_lut gamma ! i) = \<lfloor>(real i / 255) powr (1 / gamma) * 255\<rfloor>"
proof -
  have "applyGamma_lut gamma ! i = toUint8 (jfloor (jpow (real i / 255) (Fin 1 / Fin gamma) * Fin 255))"
    using assms(2) by (simp add: applyGamma_lut_def Let_def del: upt_Suc)
  then show ?thesis using lut_entry[OF assms] by simp
qed

lemma lut_mono:
  assumes "0 < gamma" and "i \<le> j" and "j < 256"
  shows "applyGamma_lut gamma ! i \<le> applyGamma_lut gamma ! j"
proof -
  have i: "i < 256" using assms by simp
  have "(real i / 255) powr (1 / gamma) \<le> (real j / 255) powr (1 / gamma)"
    using assms by (intro powr_mono2) auto
  then have "\<lfloor>(real i / 255) powr (1 / gamma) * 255\<rfloor> \<le> \<lfloor>(real j / 255) powr (1 / gamma) * 255\<rfloor>"
    by (intro floor_mono) simp
  then show ?thesis
    using lut_nth[OF assms(1) i] lut_nth[OF assms(1) assms(3)] by linarith
qed

text \<open>
  C6: for every \<open>gamma > 0\<close> the table of \<open>applyGamma\<close> holds
  \<open>floor ((i / 255) ^ (1 / gamma) * 255)\<close> at every index \<open>i\<close> below 256 (each value lies
  in 0..255, so storing it into the \<open>Uint8Array\<close> changes nothing); the table of the
  composite enhancement is the one for \<open>gamma = 1.8\<close>; it starts with 0, ends with 255 and
  never decreases.
\<close>

theorem gamma_lut:
  "(\<forall>gamma i. 0 < gamma \<and> i < 256 \<longrightarrow>
       int (applyGamma_lut gamma ! i) = \<lfloor>(real i / 255) powr (1 / gamma) * 255\<rfloor>)
   \<and> applyCompositeEnhancement_lut = applyGamma_lut 1.8
   \<and> length applyCompositeEnhancement_lut = 256
   \<and> applyCompositeEnhancement_lut ! 0 = 0
   \<and> applyCompositeEnhancement_lut ! 255 = 255
   \<and> (\<forall>i j. i \<le> j \<and> j < 256 \<longrightarrow>
         applyCompositeEnhancement_lut ! i \<le> applyCompositeEnhancement_lut ! j)"
proof -
  have "int (applyGamma_lut 1.8 ! 0) = 0"
    using lut_nth[of "1.8" 0] by simp
  then have z: "applyGamma_lut 1.8 ! 0 = 0" by simp
  have "int (applyGamma_lut 1.8 ! 255) = 255"
    using lut_nth[of "1.8" 255] by simp
  then have m: "applyGamma_lut 1.8 ! 255 = 255" by linarith
  have l: "length (applyGamma_lut 1.8) = 256"
    by (simp add: applyGamma_lut_def Let_def del: upt_Suc)
  have f: "\<forall>gamma i. 0 < gamma \<and> i < 256 \<longrightarrow>
       int (applyGamma_lut gamma ! i) = \<lfloor>(real i / 255) powr (1 / gamma) * 255\<rfloor>"
    by (simp add: lut_nth)
  have mono: "\<forall>i j. i \<le> j \<and> j < 256 \<longrightarrow> applyGamma_lut 1.8 ! i \<le> applyGamma_lut 1.8 ! j"
    by (auto intro!: lut_mono)
  show ?thesis
    unfolding composite_is_gamma using z m l f mono by blast
qed

theorem gamma_lut_witness:
  "int (applyGamma_lut 2 ! 51) = \<lfloor>(real 51 / 255) powr (1 / 2) * 255\<rfloor>
   \<and> applyCompositeEnhancement_lut ! 0 \<le> applyCompositeEnhancement_lut ! 255"
  using gamma_lut by simp

subsection \<open>Dimensionality of the feature vector\<close>

lemma length_steps8: "length (steps v limit 8) = nat ((limit - v + 7) div 8)"
proof (induction v limit "8::int" rule: steps.induct)
  case (1 v limit)
  show ?case
  proof (cases "v < limit")
    case True
    then have "length (steps v limit 8) = Suc (length (steps (v + 8) limit 8))"
      by (subst steps.simps) simp
    also have "\<dots> = Suc (nat ((limit - (v + 8) + 7) div 8))"
      using 1 True by simp
    also have "\<dots> = nat ((limit - v + 7) div 8)"
      using True by (simp add: Suc_nat_eq_nat_zadd1) 
    finally show ?thesis .
  next
    case False
    then have "steps v limit 8 = []" by (subst steps.simps) simp
    moreover have "(limit - v + 7) div 8 \<le> 0" using False by simp
    ultimately show ?thesis by simp
  qed
qed

lemma atan2_lower: "- pi \<le> atan2 y x"
proof -
  have a: "- (pi / 2) < arctan (y / x)" by (rule arctan_lbound)
  have p: "0 < pi" by (rule pi_gt_zero)
  consider "0 < x" | "x < 0" "0 \<le> y" | "x < 0" "y < 0"
    | "x = 0" "0 < y" | "x = 0" "y < 0" | "x = 0" "y = 0"
    by linarith
  then show ?thesis
  proof cases
    case 1
    then have "atan2 y x = arctan (y / x)" by (simp add: atan2_def)
    then show ?thesis using a p by linarith
  next
    case 2
    then have "atan2 y x = arctan (y / x) + pi" by (simp add: atan2_def)
    then show ?thesis using a p by linarith
  next
    case 3
    then have "0 < y / x" by (simp add: divide_neg_neg)
    then have "0 < arctan (y / x)" by (simp add: arctan_less_zero_iff)
    moreover from 3 have "atan2 y x = arctan (y / x) - pi" by (simp add: atan2_def)
    ultimately show ?thesis by linarith
  next
    case 4
    then have "atan2 y x = pi / 2" by (simp add: atan2_def)
    then show ?thesis using p by linarith
  next
    case 5
    then have "atan2 y x = - pi / 2" by (simp add: atan2_def)
    then show ?thesis using p by linarith
  next
    case 6
    then have "atan2 y x = 0" by (simp add: atan2_def)
    then show ?thesis using p by linarith
  qed
qed

lemma fmod_range:
  assumes "0 \<le> a" and "0 < b"
  shows "0 \<le> fmod a b \<and> fmod a b < b"
proof -
  have q: "0 \<le> a / b" using assms by simp
  have f: "fmod a b = a - b * real_of_int \<lfloor>a / b\<rfloor>" using q by (simp add: fmod_def)
  have ab: "b * (a / b) = a" using assms(2) by simp
  have "b * real_of_int \<lfloor>a / b\<rfloor> \<le> b * (a / b)"
    using assms(2) by (intro mult_left_mono) auto
  then have lo: "b * real_of_int \<lfloor>a / b\<rfloor> \<le> a" using ab by simp
  have "a / b < real_of_int \<lfloor>a / b\<rfloor> + 1" by linarith
  then have "b * (a / b) < b * (real_of_int \<lfloor>a / b\<rfloor> + 1)"
    using assms(2) by (intro mult_strict_left_mono) auto
  then have hi: "a < b * real_of_int \<lfloor>a / b\<rfloor> + b" using ab by (simp add: algebra_simps)
  show ?thesis using lo hi by (simp add: f)
qed

text \<open>The bin index is one of 0..8, so \<open>cellHistogram[bin] += magnitude\<close> never adds an
  element to the array.\<close>

lemma hogBin_range: "0 \<le> hogBin gx gy \<and> hogBin gx gy < 9"
proof -
  let ?deg = "atan2 gy gx * 180 / pi + 180"
  have "- pi \<le> atan2 gy gx" by (rule atan2_lower)
  then have "- 180 \<le> atan2 gy gx * 180 / pi"
    using pi_gt_zero by (simp add: field_simps)
  then have d: "0 \<le> ?deg" by simp
  let ?angle = "fmod ?deg 180"
  from fmod_range[OF d, of 180] have a: "0 \<le> ?angle" "?angle < 180" by simp_all
  let ?k = "\<lfloor>?angle / (180 / 9)\<rfloor>"
  have k0: "0 \<le> ?k" using a by simp
  have "?angle / (180 / 9) < 9" using a by simp
  then have k9: "?k < 9" by (simp add: floor_less_iff)
  have kr: "0 \<le> real_of_int ?k" using k0 by simp
  from fmod_range[OF kr, of 9]
  have m: "0 \<le> fmod (real_of_int ?k) 9" "fmod (real_of_int ?k) 9 < 9" by simp_all
  have "hogBin gx gy = \<lfloor>fmod (real_of_int ?k) 9\<rfloor>"
    by (simp add: hogBin_def Let_def)
  then show ?thesis using m by (simp add: floor_less_iff)
qed

lemma length_hogPixel: "length (hogPixel d w h py px hist) = length hist"
  by (simp add: hogPixel_def Let_def)

lemma length_fold_same:
  assumes "\<And>x acc. length (f x acc) = length acc"
  shows "length (fold f xs acc) = length acc"
  using assms by (induction xs arbitrary: acc) auto

lemma length_hogCell: "length (hogCell d w h y x) = 9"
proof -
  have inner: "length (fold (\<lambda>cx hist. hogPixel d w h (y + cy) (x + cx) hist) xs hist) = length hist" for cy xs hist
    by (rule length_fold_same) (rule length_hogPixel)
  have "length (fold (\<lambda>cy hist. fold (\<lambda>cx hist. hogPixel d w h (y + cy) (x + cx) hist) [0..7] hist) [0..7] (replicate 9 0)) = length (replicate 9 (0::real))"
    by (rule length_fold_same) (rule inner)
  then show ?thesis by (simp add: hogCell_def)
qed

lemma length_concat_const:
  assumes "\<And>x. length (f x) = n"
  shows "length (concat (map f xs)) = n * length xs"
  using assms by (induction xs) auto

lemma length_hog_descriptor:
  "length (descriptor (computeHOG d w h)) = min 100 (9 * hogCells w h)"
proof -
  have row: "length (concat (map (\<lambda>x. hogCell d w h y x) (steps 8 (w - 8) 8))) = 9 * nat ((w - 9) div 8)" for y
    using length_concat_const[of "\<lambda>x. hogCell d w h y x" 9 "steps 8 (w - 8) 8"]
    by (simp add: length_hogCell length_steps8)
  have "length (concat (map (\<lambda>y. concat (map (\<lambda>x. hogCell d w h y x) (steps 8 (w - 8) 8))) (steps 8 (h - 8) 8)))
        = 9 * nat ((w - 9) div 8) * nat ((h - 9) div 8)"
    using length_concat_const[of "\<lambda>y. concat (map (\<lambda>x. hogCell d w h y x) (steps 8 (w - 8) 8))" "9 * nat ((w - 9) div 8)" "steps 8 (h - 8) 8"] row
    by (simp add: length_steps8)
  then show ?thesis
    by (simp add: computeHOG_def Let_def hogCells_def min_def)
qed

lemma length_hu: "length (computeHuMoments d w h) = 7"
  by (simp add: computeHuMoments_def Let_def split: prod.splits)

lemma length_color:
  "length (mean (computeColorMoments d w h)) = 3 \<and> length (std (computeColorMoments d w h)) = 3"
  by (simp add: computeColorMoments_def Let_def)


lemma length_lbp_histogram: "length (histogram (computeLBP d w h)) = 256"
  by (simp add: computeLBP_def Let_def lbpCounts_total)

lemma dimensionality_formula:
  "dimensionality (extractFeatureVector d w h) = 39 + min 20 (9 * hogCells w h)"
  by (simp add: extractFeatureVector_def constructFeatureVector_def Let_def
      extractTextureFeatures_def extractStatisticalFeatures_def
      length_hog_descriptor length_hu length_color length_lbp_histogram)

text \<open>
  C4, as stated, fails: the 17 x 17 image has one HOG cell, so its descriptor has 9 values
  and \<open>slice(0, 20)\<close> returns 9, not 20; the 25 x 25 image has four cells and a full slice.
\<close>

theorem dimensionality_differs:
  "dimensionality (extractFeatureVector black17 17 17) = 48
   \<and> dimensionality (extractFeatureVector black25 25 25) = 59
   \<and> dimensionality (extractFeatureVector black17 17 17)
       \<noteq> dimensionality (extractFeatureVector black25 25 25)"
  by (simp add: dimensionality_formula hogCells_def)

text \<open>
  C4, amended: the dimensionality is 39 plus the smaller of 20 and 9 times the number of HOG
  cells of the image; it is 59, and so the same for any two images, once both have at least
  3 HOG cells.
\<close>

theorem dimensionality_by_hog_cells:
  "dimensionality (extractFeatureVector d w h) = 39 + min 20 (9 * hogCells w h)
   \<and> (3 \<le> hogCells w h \<and> 3 \<le> hogCells w' h' \<longrightarrow>
        dimensionality (extractFeatureVector d w h) = 59
        \<and> dimensionality (extractFeatureVector d w h)
            = dimensionality (extractFeatureVector d' w' h'))"
  by (simp add: dimensionality_formula)

theorem dimensionality_by_hog_cells_witness:
  "hogCells 25 25 = 4 \<and> hogCells 33 17 = 3
   \<and> dimensionality (extractFeatureVector black25 25 25) = 59
   \<and> dimensionality (extractFeatureVector black25 25 25)
       = dimensionality (extractFeatureVector black33x17 33 17)"
proof -
  have a: "hogCells 25 25 = 4" and b: "hogCells 33 17 = 3"
    by (simp_all add: hogCells_def)
  show ?thesis
    using dimensionality_by_hog_cells[of black25 25 25 33 17 black33x17] a b by simp
qed

subsection \<open>The fused vector\<close>

lemma finite_list: "list_all isFinite xs \<Longrightarrow> xs = map Fin (map toReal xs)"
proof (induction xs)
  case Nil
  show ?case by simp
next
  case (Cons x xs)
  then show ?case by (cases x) simp_all
qed

lemma fold_squares_Fin:
  "fold (\<lambda>val acc. acc + val * val) (map Fin rs) (Fin a)
   = Fin (a + sum_list (map (\<lambda>r. r * r) rs))"
  by (induction rs arbitrary: a) (simp_all add: plus_jsnum_def times_jsnum_def)

lemma sum_squares_nonneg: "0 \<le> sum_list (map (\<lambda>r. r * r) (rs :: real list))"
  by (rule sum_list_nonneg) auto

lemma l2norm_Fin: "l2norm (map Fin rs) = Fin (sqrt (sum_list (map (\<lambda>r. r * r) rs)))"
  using sum_squares_nonneg[of rs] by (simp add: l2norm_def fold_squares_Fin)

lemma sum_squares_scaled:
  fixes rs :: "real list"
  shows "sum_list (map (\<lambda>r. r * r) (map (\<lambda>r. r / c) rs))
         = sum_list (map (\<lambda>r. r * r) rs) / (c * c)"
  by (induction rs) (simp_all add: add_divide_distrib)

lemma normalise_Fin:
  assumes "0 < c"
  shows "map (\<lambda>val. val / Fin c) (map Fin rs) = map Fin (map (\<lambda>r. r / c) rs)"
  using assms by (simp add: divide_jsnum_def)

lemma l2norm_normalised:
  fixes rs :: "real list"
  defines "n \<equiv> sqrt (sum_list (map (\<lambda>r. r * r) rs))"
  shows "l2norm (map (\<lambda>val. val / (l2norm (map Fin rs) + Fin (1 / 1000000))) (map Fin rs))
         = Fin (n / (n + 1 / 1000000))"
proof -
  have n0: "0 \<le> n" unfolding n_def using sum_squares_nonneg[of rs] by simp
  then have c: "0 < n + 1 / 1000000" by simp
  have "l2norm (map Fin rs) + Fin (1 / 1000000) = Fin (n + 1 / 1000000)"
    by (simp add: l2norm_Fin n_def plus_jsnum_def)
  then have "map (\<lambda>val. val / (l2norm (map Fin rs) + Fin (1 / 1000000))) (map Fin rs)
             = map Fin (map (\<lambda>r. r / (n + 1 / 1000000)) rs)"
    using normalise_Fin[OF c] by simp
  then have "l2norm (map (\<lambda>val. val / (l2norm (map Fin rs) + Fin (1 / 1000000))) (map Fin rs))
             = Fin (sqrt (sum_list (map (\<lambda>r. r * r) rs) / ((n + 1 / 1000000) * (n + 1 / 1000000))))"
    by (simp only: l2norm_Fin sum_squares_scaled)
  also have "sqrt (sum_list (map (\<lambda>r. r * r) rs) / ((n + 1 / 1000000) * (n + 1 / 1000000)))
             = n / (n + 1 / 1000000)"
    using c by (simp add: real_sqrt_divide n_def)
  finally show ?thesis .
qed


lemma constructFeatureVector_concat:
  "finiteInputs kp stat \<Longrightarrow>
   FeatureVector.keypoints (constructFeatureVector kp tex stat)
   @ FeatureVector.texture (constructFeatureVector kp tex stat)
   @ FeatureVector.statistical (constructFeatureVector kp tex stat)
   = map Fin (map toReal
       (FeatureVector.keypoints (constructFeatureVector kp tex stat)
        @ FeatureVector.texture (constructFeatureVector kp tex stat)
        @ FeatureVector.statistical (constructFeatureVector kp tex stat)))"
  by (rule finite_list)
     (auto simp: finiteInputs_def constructFeatureVector_def Let_def list_all_iff)

lemma zero_norm_zero_entries:
  fixes rs :: "real list"
  assumes "sqrt (sum_list (map (\<lambda>r. r * r) rs)) = 0"
  shows "list_all (\<lambda>r. r = 0) rs"
proof -
  from assms have "sum_list (map (\<lambda>r. r * r) rs) = 0" by simp
  moreover have "\<forall>x \<in> set (map (\<lambda>r. r * r) rs). 0 \<le> x" by auto
  ultimately have "\<forall>x \<in> set (map (\<lambda>r. r * r) rs). x = 0"
    by (simp only: sum_list_nonneg_eq_0_iff)
  then show ?thesis by (simp add: list_all_iff)
qed

text \<open>
  The shape of every vector \<open>constructFeatureVector\<close> builds: \<open>dimensionality\<close> is the length
  of the fused vector, which is the sum of the lengths of the three sub-vectors, and the
  fused vector is the concatenation divided entry by entry by its norm plus \<open>1e-6\<close>. When
  all inputs are finite and the concatenation has norm \<open>n\<close>, the fused vector has norm
  \<open>n / (n + 1e-6)\<close>: within \<open>1e-6\<close> of 1 once \<open>n \<ge> 1\<close>, and the zero vector when \<open>n = 0\<close>.
\<close>

lemma fused_vector_normalised:
  fixes kp :: KeypointStats and tex :: TextureFeatures and stat :: StatisticalFeatures
  defines "fv \<equiv> constructFeatureVector kp tex stat"
  defines "c \<equiv> FeatureVector.keypoints fv @ FeatureVector.texture fv
                 @ FeatureVector.statistical fv"
  defines "n \<equiv> toReal (l2norm c)"
  shows "dimensionality fv = length (fused fv)
       \<and> length (fused fv)
           = length (FeatureVector.keypoints fv) + length (FeatureVector.texture fv)
             + length (FeatureVector.statistical fv)
       \<and> fused fv = map (\<lambda>val. val / (l2norm c + Fin (1 / 1000000))) c
       \<and> (finiteInputs kp stat \<longrightarrow>
            l2norm c = Fin n \<and> 0 \<le> n
            \<and> l2norm (fused fv) = Fin (n / (n + 1 / 1000000))
            \<and> (1 \<le> n \<longrightarrow> \<bar>n / (n + 1 / 1000000) - 1\<bar> \<le> 1 / 1000000)
            \<and> (n = 0 \<longrightarrow> list_all (\<lambda>v. v = Fin 0) (fused fv)))"
proof -
  have shape: "dimensionality fv = length (fused fv)
       \<and> length (fused fv)
           = length (FeatureVector.keypoints fv) + length (FeatureVector.texture fv)
             + length (FeatureVector.statistical fv)
       \<and> fused fv = map (\<lambda>val. val / (l2norm c + Fin (1 / 1000000))) c"
    by (simp add: fv_def c_def constructFeatureVector_def Let_def)
  have fin: "l2norm c = Fin n \<and> 0 \<le> n
            \<and> l2norm (fused fv) = Fin (n / (n + 1 / 1000000))
            \<and> (1 \<le> n \<longrightarrow> \<bar>n / (n + 1 / 1000000) - 1\<bar> \<le> 1 / 1000000)
            \<and> (n = 0 \<longrightarrow> list_all (\<lambda>v. v = Fin 0) (fused fv))"
    if f: "finiteInputs kp stat"
  proof -
    define rs where "rs = map toReal c"
    have c: "c = map Fin rs"
      unfolding rs_def c_def fv_def by (rule constructFeatureVector_concat[OF f])
    have n: "n = sqrt (sum_list (map (\<lambda>r. r * r) rs))"
      by (simp add: n_def c l2norm_Fin)
    have 1: "l2norm c = Fin n" by (simp add: c l2norm_Fin n)
    have 2: "0 \<le> n" unfolding n using sum_squares_nonneg[of rs] by simp
    have fu: "fused fv = map (\<lambda>val. val / (l2norm (map Fin rs) + Fin (1 / 1000000))) (map Fin rs)"
      using shape by (simp add: c)
    have 3: "l2norm (fused fv) = Fin (n / (n + 1 / 1000000))"
      unfolding fu n by (rule l2norm_normalised)
    have 4: "\<bar>n / (n + 1 / 1000000) - 1\<bar> \<le> 1 / 1000000" if "1 \<le> n"
      by (rule guarded_ratio_near_one[OF that])
    have 5: "list_all (\<lambda>v. v = Fin 0) (fused fv)" if z: "n = 0"
    proof -
      from z n have "list_all (\<lambda>r. r = 0) rs"
        by (intro zero_norm_zero_entries) simp
      moreover have "l2norm (map Fin rs) + Fin (1 / 1000000) = Fin (1 / 1000000)"
        using 1 z by (simp add: c plus_jsnum_def)
      ultimately show ?thesis
        unfolding fu by (simp add: list_all_iff divide_jsnum_def)
    qed
    show ?thesis using 1 2 3 4 5 by blast
  qed
  show ?thesis using shape fin by blast
qed

subsection \<open>The pipeline\<close>

lemma calculateFeatureImprovement_null:
  "rawF = None \<or> enhancedF = None \<Longrightarrow>
   calculateFeatureImprovement rawF enhancedF
   = Inr \<lparr>keypoints = Fin 0, texture = Fin 0, quality = Fin 0\<rparr>"
  by (auto simp: calculateFeatureImprovement_def split: option.splits)

text \<open>
  The object that \<open>extractComprehensiveFeatures\<close> builds holds the keypoint counts directly
  under \<open>keypoints\<close>; it has no \<open>keypoints.enhanced\<close>. The first property read of
  \<open>calculateFeatureImprovement\<close>, \<open>raw.keypoints.enhanced.orb\<close>, therefore raises a
  \<open>TypeError\<close> whenever both feature results are present.
\<close>

lemma featureResult_keypoints_enhanced:
  "getPath (featureResult name d w h) [''keypoints'', ''enhanced'', ''orb'']
   = Inl (TypeError ''Cannot read properties of undefined (reading orb)'')"
  by (simp add: featureResult_def Let_def keypointsObject_def)

lemma featureResult_keypoint_sum:
  "sum3 (featureResult name d w h) [''keypoints'', ''enhanced''] ''orb'' ''fast'' ''sift''
   = Inl (TypeError ''Cannot read properties of undefined (reading orb)'')"
  by (simp add: sum3_def bindE_def featureResult_def Let_def keypointsObject_def)

lemma calculateFeatureImprovement_TypeError:
  "calculateFeatureImprovement (Some (featureResult name d w h)) (Some enhancedObj)
   = Inl (TypeError ''Cannot read properties of undefined (reading orb)'')"
  by (simp add: calculateFeatureImprovement_def bindE_def featureResult_keypoint_sum)

lemma runPipeline_fullEnv_TypeError:
  "snd (runPipeline fullEnv ''raw'' True)
   = Inl (TypeError ''Cannot read properties of undefined (reading orb)'')"
  by (simp add: runPipeline_def Let_def fullEnv_def halfEnv_def waitForOpenCV_def
      loadImage_def extractComprehensiveFeatures_def calculateFeatureImprovement_TypeError)

lemma overallImprovement_formula:
  "snd (runPipeline env url obs) = Inr r \<Longrightarrow>
   overallImprovement (comparison r)
   = FeatureImprovement.keypoints (featureImprovement (comparison r)) * Fin 0.3
     + FeatureImprovement.texture (featureImprovement (comparison r)) * Fin 0.2
     + quality (featureImprovement (comparison r)) * Fin 0.2
     + Fin (DetectionImprovement.mAP (detectionImprovement (comparison r))) * Fin 0.3"
  by (auto simp: runPipeline_def Let_def split: option.splits sum.splits)

lemma halfEnv_mAP:
  "EvaluationMetrics.mAP (calculateMetrics (boxes (detections ''enhanced'')) []) = 0.45
   \<and> EvaluationMetrics.mAP (calculateMetrics (boxes (detections ''raw'')) []) = 0"
  by (simp add: calculateMetrics_def calculateDetectionMetrics_def detections_def
      halfBox_def Let_def)

lemma halfEnv_comparison:
  "\<exists>r. snd (runPipeline halfEnv ''raw'' True) = Inr r
       \<and> featureImprovement (comparison r)
           = \<lparr>keypoints = Fin 0, texture = Fin 0, quality = Fin 0\<rparr>
       \<and> DetectionImprovement.mAP (detectionImprovement (comparison r)) = 0.45
       \<and> overallImprovement (comparison r) = Fin 0.135
       \<and> features (raw r) = Some (featureResult ''Raw Image'' flat3x3 3 3)
       \<and> features (enhanced r) = None"
  using halfEnv_mAP
  by (simp add: runPipeline_def Let_def halfEnv_def waitForOpenCV_def loadImage_def
      extractComprehensiveFeatures_def calculateFeatureImprovement_null
      generateSyntheticGroundTruth_def times_jsnum_def plus_jsnum_def)


text \<open>
  C2, as stated, fails: in the run \<open>halfEnv\<close> the feature extraction of the enhanced image
  cannot read the image and resolves to \<open>null\<close>; \<open>runPipeline\<close> does not abort, it returns a
  result whose feature improvements are the default 0.
\<close>

theorem feature_failure_is_not_an_error:
  "extractComprehensiveFeatures (pixels halfEnv) ''enhanced'' ''Enhanced Image'' = None
   \<and> (case snd (runPipeline halfEnv ''raw'' True) of
         Inl e \<Rightarrow> False
       | Inr r \<Rightarrow>
           features (enhanced r) = None
           \<and> featureImprovement (comparison r)
               = \<lparr>keypoints = Fin 0, texture = Fin 0, quality = Fin 0\<rparr>)"
proof -
  from halfEnv_comparison obtain r where
    "snd (runPipeline halfEnv ''raw'' True) = Inr r"
    "featureImprovement (comparison r)
           = \<lparr>keypoints = Fin 0, texture = Fin 0, quality = Fin 0\<rparr>"
    "features (enhanced r) = None"
    by blast
  then show ?thesis
    by (simp add: extractComprehensiveFeatures_def halfEnv_def)
qed

text \<open>
  C3: a successful run with an observer calls it exactly seven times, with the events of
  \<open>progressEvents\<close> in that order (progress 10, 30, 50, 60, 80, 90, 100), and each event comes
  before the service calls of its stage.
\<close>

theorem progress_events_of_successful_run:
  assumes "snd (runPipeline env url True) = Inr r"
  shows "observations (fst (runPipeline env url True)) = progressEvents
       \<and> length progressEvents = 7
       \<and> map progress progressEvents = [10, 30, 50, 60, 80, 90, 100]
       \<and> fst (runPipeline env url True)
           = [Observed (progressEvents ! 0), WaitForOpenCV, LoadImage url,
              ApplyCompositeEnhancement url,
              Observed (progressEvents ! 1), ExtractComprehensiveFeatures url,
              Observed (progressEvents ! 2),
              ExtractComprehensiveFeatures (imageUrl (enhanced r)),
              Observed (progressEvents ! 3), LoadModel, Detect url,
              Observed (progressEvents ! 4), Detect (imageUrl (enhanced r)),
              Observed (progressEvents ! 5),
              Observed (progressEvents ! 6)]"
  using assms
  by (auto simp: runPipeline_def Let_def emit_def progressEvents_def loadImage_def
      split: option.splits sum.splits)

theorem progress_events_of_successful_run_witness:
  "observations (fst (runPipeline halfEnv ''raw'' True)) = progressEvents
   \<and> length (fst (runPipeline halfEnv ''raw'' True)) = 15"
proof -
  from halfEnv_comparison obtain r where
    r: "snd (runPipeline halfEnv ''raw'' True) = Inr r" by blast
  note t = progress_events_of_successful_run[OF r]
  from t have a: "observations (fst (runPipeline halfEnv ''raw'' True)) = progressEvents"
    by blast
  from t have "fst (runPipeline halfEnv ''raw'' True)
           = [Observed (progressEvents ! 0), WaitForOpenCV, LoadImage ''raw'',
              ApplyCompositeEnhancement ''raw'',
              Observed (progressEvents ! 1), ExtractComprehensiveFeatures ''raw'',
              Observed (progressEvents ! 2),
              ExtractComprehensiveFeatures (imageUrl (enhanced r)),
              Observed (progressEvents ! 3), LoadModel, Detect ''raw'',
              Observed (progressEvents ! 4), Detect (imageUrl (enhanced r)),
              Observed (progressEvents ! 5),
              Observed (progressEvents ! 6)]"
    by blast
  then have b: "length (fst (runPipeline halfEnv ''raw'' True)) = 15"
    by simp
  show ?thesis by (rule conjI[OF a b])
qed


lemma extract_None:
  "pixels env url = None \<Longrightarrow> extractComprehensiveFeatures (pixels env) url name = None"
  by (simp add: extractComprehensiveFeatures_def)

text \<open>
  C2, amended: when waiting for OpenCV, loading the image, the composite enhancement,
  loading the model or one of the two detector calls fails, \<open>runPipeline\<close> rejects with that
  error and the failing call is its last effect; no result is returned. A feature
  extraction that cannot read its image is not such a failure: it resolves to \<open>null\<close>, the
  run goes on, and when the other services succeed the result carries the \<open>null\<close> features
  and feature improvements of 0.
\<close>

theorem stage_failure_aborts:
  fixes env :: PipelineEnv and url :: string and obs :: bool
  defines "R \<equiv> runPipeline env url obs"
  shows
  "(\<not> openCVReady env \<longrightarrow>
      snd R = Inl (Error ''OpenCV initialization timed out'')
      \<and> last (fst R) = WaitForOpenCV)
   \<and> (openCVReady env \<and> imageLoads env url = Some e \<longrightarrow>
      snd R = Inl e \<and> last (fst R) = LoadImage url)
   \<and> (openCVReady env \<and> imageLoads env url = None
       \<and> compositeEnhancement env url = Inl e \<longrightarrow>
      snd R = Inl e \<and> last (fst R) = ApplyCompositeEnhancement url)
   \<and> (openCVReady env \<and> imageLoads env url = None
       \<and> compositeEnhancement env url = Inr eu \<and> modelLoads env = Some e \<longrightarrow>
      snd R = Inl e \<and> last (fst R) = LoadModel)
   \<and> (openCVReady env \<and> imageLoads env url = None
       \<and> compositeEnhancement env url = Inr eu \<and> modelLoads env = None
       \<and> yoloDetect env url = Inl e \<longrightarrow>
      snd R = Inl e \<and> last (fst R) = Detect url)
   \<and> (openCVReady env \<and> imageLoads env url = None
       \<and> compositeEnhancement env url = Inr eu \<and> modelLoads env = None
       \<and> yoloDetect env url = Inr rd \<and> yoloDetect env eu = Inl e \<longrightarrow>
      snd R = Inl e \<and> last (fst R) = Detect eu)
   \<and> (openCVReady env \<and> imageLoads env url = None
       \<and> compositeEnhancement env url = Inr eu \<and> modelLoads env = None
       \<and> yoloDetect env url = Inr rd \<and> yoloDetect env eu = Inr ed
       \<and> (pixels env url = None \<or> pixels env eu = None) \<longrightarrow>
      (case snd R of
         Inl e' \<Rightarrow> False
       | Inr r \<Rightarrow>
           features (raw r) = extractComprehensiveFeatures (pixels env) url ''Raw Image''
           \<and> features (enhanced r)
               = extractComprehensiveFeatures (pixels env) eu ''Enhanced Image''
           \<and> featureImprovement (comparison r)
               = \<lparr>keypoints = Fin 0, texture = Fin 0, quality = Fin 0\<rparr>))"
proof (intro conjI impI)
  assume "\<not> openCVReady env"
  then show "snd R = Inl (Error ''OpenCV initialization timed out'')"
    and "last (fst R) = WaitForOpenCV"
    by (simp_all add: R_def runPipeline_def Let_def waitForOpenCV_def)
next
  assume "openCVReady env \<and> imageLoads env url = Some e"
  then show "snd R = Inl e" and "last (fst R) = LoadImage url"
    by (simp_all add: R_def runPipeline_def Let_def waitForOpenCV_def loadImage_def)
next
  assume "openCVReady env \<and> imageLoads env url = None
       \<and> compositeEnhancement env url = Inl e"
  then show "snd R = Inl e" and "last (fst R) = ApplyCompositeEnhancement url"
    by (simp_all add: R_def runPipeline_def Let_def waitForOpenCV_def loadImage_def)
next
  assume "openCVReady env \<and> imageLoads env url = None
       \<and> compositeEnhancement env url = Inr eu \<and> modelLoads env = Some e"
  then show "snd R = Inl e" and "last (fst R) = LoadModel"
    by (simp_all add: R_def runPipeline_def Let_def waitForOpenCV_def loadImage_def)
next
  assume "openCVReady env \<and> imageLoads env url = None
       \<and> compositeEnhancement env url = Inr eu \<and> modelLoads env = None
       \<and> yoloDetect env url = Inl e"
  then show "snd R = Inl e" and "last (fst R) = Detect url"
    by (simp_all add: R_def runPipeline_def Let_def waitForOpenCV_def loadImage_def)
next
  assume "openCVReady env \<and> imageLoads env url = None
       \<and> compositeEnhancement env url = Inr eu \<and> modelLoads env = None
       \<and> yoloDetect env url = Inr rd \<and> yoloDetect env eu = Inl e"
  then show "snd R = Inl e" and "last (fst R) = Detect eu"
    by (simp_all add: R_def runPipeline_def Let_def waitForOpenCV_def loadImage_def)
next
  assume a: "openCVReady env \<and> imageLoads env url = None
       \<and> compositeEnhancement env url = Inr eu \<and> modelLoads env = None
       \<and> yoloDetect env url = Inr rd \<and> yoloDetect env eu = Inr ed
       \<and> (pixels env url = None \<or> pixels env eu = None)"
  then have "extractComprehensiveFeatures (pixels env) url ''Raw Image'' = None
             \<or> extractComprehensiveFeatures (pixels env) eu ''Enhanced Image'' = None"
    by (auto simp: extract_None)
  then have c: "calculateFeatureImprovement
                  (extractComprehensiveFeatures (pixels env) url ''Raw Image'')
                  (extractComprehensiveFeatures (pixels env) eu ''Enhanced Image'')
                = Inr \<lparr>keypoints = Fin 0, texture = Fin 0, quality = Fin 0\<rparr>"
    by (rule calculateFeatureImprovement_null)
  from a show "case snd R of
         Inl e' \<Rightarrow> False
       | Inr r \<Rightarrow>
           features (raw r) = extractComprehensiveFeatures (pixels env) url ''Raw Image''
           \<and> features (enhanced r)
               = extractComprehensiveFeatures (pixels env) eu ''Enhanced Image''
           \<and> featureImprovement (comparison r)
               = \<lparr>keypoints = Fin 0, texture = Fin 0, quality = Fin 0\<rparr>"
    by (simp add: R_def runPipeline_def Let_def waitForOpenCV_def loadImage_def c)
qed

theorem stage_failure_aborts_witness:
  "snd (runPipeline (halfEnv\<lparr>openCVReady := False\<rparr>) ''raw'' True)
     = Inl (Error ''OpenCV initialization timed out'')
   \<and> last (fst (runPipeline (halfEnv\<lparr>modelLoads := Some (Error ''no model'')\<rparr>) ''raw'' True))
     = LoadModel
   \<and> snd (runPipeline (halfEnv\<lparr>modelLoads := Some (Error ''no model'')\<rparr>) ''raw'' True)
     = Inl (Error ''no model'')"
  using stage_failure_aborts[where env = "halfEnv\<lparr>openCVReady := False\<rparr>"
      and url = "''raw''" and obs = True]
    stage_failure_aborts[where env = "halfEnv\<lparr>modelLoads := Some (Error ''no model'')\<rparr>"
      and url = "''raw''" and obs = True and e = "Error ''no model''" and eu = "''enhanced''"]
  by (simp add: halfEnv_def)

subsection \<open>Keypoint estimates of images with interior pixels\<close>

text \<open>Away from the degenerate sizes the two statistics are finite and non-negative, and
  the three estimates are at least their base constants.\<close>

lemma gradientMagnitude_nonneg: "0 \<le> gradientMagnitude d w x y"
  by (simp add: gradientMagnitude_def Let_def)

lemma meanGradientMagnitude_nonneg: "0 \<le> meanGradientMagnitude d w h"
  unfolding meanGradientMagnitude_def
  by (intro divide_nonneg_nonneg sum_nonneg) (auto simp: gradientMagnitude_nonneg)

lemma floor_affine_lower:
  fixes c e :: real
  assumes "0 \<le> c" and "0 \<le> e" and "0 \<le> p" and "0 \<le> q"
  shows "real_of_int b \<le> real_of_int \<lfloor>real_of_int b + c * p + e * q\<rfloor>"
proof -
  have "0 \<le> c * p" "0 \<le> e * q" using assms by simp_all
  then have "real_of_int b \<le> real_of_int b + c * p + e * q" by linarith
  then have "b \<le> \<lfloor>real_of_int b + c * p + e * q\<rfloor>" by (simp add: le_floor_iff)
  then show ?thesis by simp
qed

lemma keypoints_lower_bounds_with_interior:
  assumes "3 \<le> w" and "3 \<le> h"
  shows "jge (orb (extractKeypoints d w h)) (Fin 30)
       \<and> jge (fast (extractKeypoints d w h)) (Fin 80)
       \<and> jge (sift (extractKeypoints d w h)) (Fin 20)"
proof -
  let ?c = "real (card (edgePixels d w h)) / real_of_int (w * h)"
  let ?e = "meanGradientMagnitude d w h / 255"
  have wh: "w * h \<noteq> 0" using assms by simp
  have c: "calculateImageComplexity d w h = Fin ?c"
    using wh
    by (simp add: calculateImageComplexity_def fold_fold_count edgePixels_card
        divide_jsnum_def del: of_int_mult)
  have nz: "(w - 2) * (h - 2) \<noteq> 0" using assms by simp
  have ci: "real (card (interior w h)) = real_of_int ((w - 2) * (h - 2))"
    using assms by (simp add: card_interior)
  have e: "calculateEdgeDensity d w h = Fin ?e"
    using nz
    by (simp add: calculateEdgeDensity_def edgeStrength_sum meanGradientMagnitude_def
        divide_jsnum_def ci del: of_int_mult)
  have "0 < w * h" using assms by (simp add: zero_less_mult_iff)
  then have "0 < real_of_int (w * h)" by (simp only: of_int_0_less_iff)
  then have c0: "0 \<le> ?c" by (intro divide_nonneg_pos) simp_all
  have e0: "0 \<le> ?e" using meanGradientMagnitude_nonneg[of d w h] by simp
  have o: "orb (extractKeypoints d w h) = Fin (real_of_int \<lfloor>30 + ?c * 250 + ?e * 100\<rfloor>)"
    and f: "fast (extractKeypoints d w h) = Fin (real_of_int \<lfloor>80 + ?c * 400 + ?e * 150\<rfloor>)"
    and s: "sift (extractKeypoints d w h) = Fin (real_of_int \<lfloor>20 + ?c * 180 + ?e * 80\<rfloor>)"
    by (simp_all only: extractKeypoints_def Let_def c e plus_jsnum_def times_jsnum_def
        jadd.simps jmul.simps jfloor.simps KeypointStats.simps)
  from floor_affine_lower[OF c0 e0, of 250 100 30]
  have 1: "30 \<le> real_of_int \<lfloor>30 + ?c * 250 + ?e * 100\<rfloor>" by simp
  from floor_affine_lower[OF c0 e0, of 400 150 80]
  have 2: "80 \<le> real_of_int \<lfloor>80 + ?c * 400 + ?e * 150\<rfloor>" by simp
  from floor_affine_lower[OF c0 e0, of 180 80 20]
  have 3: "20 \<le> real_of_int \<lfloor>20 + ?c * 180 + ?e * 80\<rfloor>" by simp
  show ?thesis
    unfolding o f s jge_def using 1 2 3 by (auto simp: less_eq_real_def)
qed

subsection \<open>The fused vector of an image\<close>

lemma jdiv_NaN: "v / NaN = NaN"
  by (cases v) (simp_all add: divide_jsnum_def)

lemma fold_squares_NaN: "fold (\<lambda>val acc. acc + val * val) xs NaN = NaN"
  by (induction xs) (simp_all add: plus_jsnum_def)

lemma l2norm_NaN_head: "l2norm (NaN # xs) = NaN"
proof -
  have "Fin 0 + NaN * NaN = NaN"
    by (simp add: plus_jsnum_def times_jsnum_def)
  then have "fold (\<lambda>val acc. acc + val * val) (NaN # xs) (Fin 0) = NaN"
    by (simp only: fold_Cons comp_apply fold_squares_NaN)
  then show ?thesis by (simp only: l2norm_def jsqrt.simps)
qed

lemma l2norm_all_NaN: "xs \<noteq> [] \<Longrightarrow> list_all (\<lambda>v. v = NaN) xs \<Longrightarrow> l2norm xs = NaN"
  by (cases xs) (simp_all add: l2norm_NaN_head)

text \<open>A \<open>NaN\<close> keypoint estimate makes the norm of the concatenation \<open>NaN\<close>, and with it
  every entry of the fused vector.\<close>

lemma fused_NaN:
  assumes "orb kp = NaN"
  shows "l2norm (FeatureVector.keypoints (constructFeatureVector kp tex stat)
                 @ FeatureVector.texture (constructFeatureVector kp tex stat)
                 @ FeatureVector.statistical (constructFeatureVector kp tex stat)) = NaN
       \<and> list_all (\<lambda>v. v = NaN) (fused (constructFeatureVector kp tex stat))"
  using assms
  by (auto simp: constructFeatureVector_def Let_def l2norm_NaN_head plus_jsnum_def jdiv_NaN
      list_all_iff)

lemma orb_flat2x2: "orb (extractKeypoints flat2x2 2 2) = NaN"
proof -
  have e: "calculateEdgeDensity flat2x2 2 2 = NaN"
    by (simp add: calculateEdgeDensity_def divide_jsnum_def)
  have c: "calculateImageComplexity flat2x2 2 2 = Fin 0"
    by (simp add: calculateImageComplexity_def complexityEdge_def getGrayValue_def
        flat2x2_def divide_jsnum_def)
  show ?thesis
    by (simp add: extractKeypoints_def e c times_jsnum_def plus_jsnum_def)
qed

text \<open>
  C8: the length identities hold, but the fused vector is not always of norm about 1 or
  about zero. On the 2 x 2 mid-gray image the keypoint estimates are \<open>NaN\<close> (the unguarded
  division of \<open>calculateEdgeDensity\<close>), so the norm of the concatenation is \<open>NaN\<close>, which
  does not exceed the guard \<open>1e-6\<close>, and each of the 39 entries of the fused vector is
  \<open>NaN\<close>: it is not the zero vector and its norm is \<open>NaN\<close>.
\<close>

theorem fused_vector_NaN_on_2x2:
  "wellFormed flat2x2 2 2
   \<and> dimensionality (extractFeatureVector flat2x2 2 2) = 39
   \<and> length (fused (extractFeatureVector flat2x2 2 2)) = 39
   \<and> l2norm (FeatureVector.keypoints (extractFeatureVector flat2x2 2 2)
              @ FeatureVector.texture (extractFeatureVector flat2x2 2 2)
              @ FeatureVector.statistical (extractFeatureVector flat2x2 2 2)) = NaN
   \<and> \<not> jgt (l2norm (FeatureVector.keypoints (extractFeatureVector flat2x2 2 2)
                     @ FeatureVector.texture (extractFeatureVector flat2x2 2 2)
                     @ FeatureVector.statistical (extractFeatureVector flat2x2 2 2)))
              (Fin (1 / 1000000))
   \<and> list_all (\<lambda>v. v = NaN) (fused (extractFeatureVector flat2x2 2 2))
   \<and> \<not> list_all (\<lambda>v. v = Fin 0) (fused (extractFeatureVector flat2x2 2 2))
   \<and> l2norm (fused (extractFeatureVector flat2x2 2 2)) = NaN"
proof -
  let ?fv = "extractFeatureVector flat2x2 2 2"
  have w: "wellFormed flat2x2 2 2"
    by (simp add: wellFormed_def flat2x2_def list_all_iff)
  have d: "dimensionality ?fv = 39"
    by (simp add: dimensionality_formula hogCells_def)
  have fv: "?fv = constructFeatureVector (extractKeypoints flat2x2 2 2)
                    (extractTextureFeatures flat2x2 2 2) (extractStatisticalFeatures flat2x2 2 2)"
    by (simp add: extractFeatureVector_def Let_def)
  have l: "length (fused ?fv) = dimensionality ?fv"
    by (simp add: fv constructFeatureVector_def Let_def)
  note n = fused_NaN[OF orb_flat2x2, of "extractTextureFeatures flat2x2 2 2"
      "extractStatisticalFeatures flat2x2 2 2", folded fv]
  from n have pre: "l2norm (FeatureVector.keypoints ?fv @ FeatureVector.texture ?fv
                            @ FeatureVector.statistical ?fv) = NaN"
    and all: "list_all (\<lambda>v. v = NaN) (fused ?fv)"
    by blast+
  have ne: "fused ?fv \<noteq> []" using l d by auto
  have nz: "\<not> list_all (\<lambda>v. v = Fin 0) (fused ?fv)"
  proof
    assume z: "list_all (\<lambda>v. v = Fin 0) (fused ?fv)"
    from ne obtain v vs where c: "fused ?fv = v # vs" by (cases "fused ?fv") auto
    from all z c show False by simp
  qed
  have fn: "l2norm (fused ?fv) = NaN" by (rule l2norm_all_NaN[OF ne all])
  show ?thesis using w d l pre all nz fn by simp
qed

text \<open>With finite inputs and an ORB estimate of at least 30, as \<open>extractKeypoints\<close> returns
  for every image with interior pixels, the norm of the concatenation is at least 30 and the
  fused vector has norm 1 within \<open>1e-6\<close>.\<close>

lemma sqrt_sum_squares_ge_head:
  fixes a :: real
  shows "\<bar>a\<bar> \<le> sqrt (sum_list (map (\<lambda>r. r * r) (a # rs)))"
proof -
  have "a * a \<le> sum_list (map (\<lambda>r. r * r) (a # rs))"
    using sum_squares_nonneg[of rs] by simp
  then have "sqrt (a * a) \<le> sqrt (sum_list (map (\<lambda>r. r * r) (a # rs)))"
    by (simp only: real_sqrt_le_iff)
  then show ?thesis by simp
qed

lemma fused_norm_near_one:
  assumes f: "finiteInputs kp stat" and o: "jge (orb kp) (Fin 30)"
  shows "\<exists>n m. l2norm (FeatureVector.keypoints (constructFeatureVector kp tex stat)
                     @ FeatureVector.texture (constructFeatureVector kp tex stat)
                     @ FeatureVector.statistical (constructFeatureVector kp tex stat)) = Fin n
             \<and> 30 \<le> n
             \<and> l2norm (fused (constructFeatureVector kp tex stat)) = Fin m
             \<and> \<bar>m - 1\<bar> \<le> 1 / 1000000"
proof -
  let ?fv = "constructFeatureVector kp tex stat"
  let ?c = "FeatureVector.keypoints ?fv @ FeatureVector.texture ?fv
            @ FeatureVector.statistical ?fv"
  let ?n = "toReal (l2norm ?c)"
  from f obtain a where a: "orb kp = Fin a"
    by (cases "orb kp") (simp_all add: finiteInputs_def)
  with o have a30: "30 \<le> a" by (auto simp: jge_def)
  define rs where "rs = map toReal ?c"
  have c: "?c = map Fin rs"
    unfolding rs_def by (rule constructFeatureVector_concat[OF f])
  obtain t where h: "rs = a # t"
    by (simp add: rs_def constructFeatureVector_def Let_def a)
  have n: "?n = sqrt (sum_list (map (\<lambda>r. r * r) rs))"
    by (simp only: c l2norm_Fin toReal.simps)
  have ge: "\<bar>a\<bar> \<le> sqrt (sum_list (map (\<lambda>r. r * r) rs))"
    unfolding h by (rule sqrt_sum_squares_ge_head)
  have n30: "30 \<le> ?n"
    unfolding n using ge a30 by linarith
  note t = fused_vector_normalised[of kp tex stat]
  from t f have 1: "l2norm ?c = Fin ?n"
    and 2: "l2norm (fused ?fv) = Fin (?n / (?n + 1 / 1000000))"
    and 3: "1 \<le> ?n \<longrightarrow> \<bar>?n / (?n + 1 / 1000000) - 1\<bar> \<le> 1 / 1000000"
    by blast+
  from 3 n30 have 4: "\<bar>?n / (?n + 1 / 1000000) - 1\<bar> \<le> 1 / 1000000" by simp
  show ?thesis using 1 n30 2 4 by blast
qed

text \<open>On a well-formed image the colour means and standard deviations are finite: each
  channel has \<open>width * height\<close> samples and their variance is not negative.\<close>

lemma length_steps4: "length (steps v limit 4) = nat ((limit - v + 3) div 4)"
proof (induction v limit "4::int" rule: steps.induct)
  case (1 v limit)
  show ?case
  proof (cases "v < limit")
    case True
    then have "length (steps v limit 4) = Suc (length (steps (v + 4) limit 4))"
      by (subst steps.simps) simp
    also have "\<dots> = Suc (nat ((limit - (v + 4) + 3) div 4))"
      using 1 True by simp
    also have "\<dots> = nat ((limit - v + 3) div 4)"
      using True by (simp add: Suc_nat_eq_nat_zadd1)
    finally show ?thesis .
  next
    case False
    then have "steps v limit 4 = []" by (subst steps.simps) simp
    moreover have "(limit - v + 3) div 4 \<le> 0" using False by simp
    ultimately show ?thesis by simp
  qed
qed

lemma channelSums_fold:
  "fold (\<lambda>i acc. (case acc of (valSum, sqSum, cubeSum) \<Rightarrow>
                       (let val = real (d ! nat i)
                        in (valSum + val, sqSum + val * val, cubeSum + val * val * val))))
        idxs (a, b, c)
   = (a + sum_list (map (\<lambda>i. real (d ! nat i)) idxs),
      b + sum_list (map (\<lambda>i. real (d ! nat i) * real (d ! nat i)) idxs),
      c + sum_list (map (\<lambda>i. real (d ! nat i) * real (d ! nat i) * real (d ! nat i)) idxs))"
  by (induction idxs arbitrary: a b c) (simp_all add: Let_def)

lemma sum_shifted_squares:
  fixes xs :: "real list"
  shows "sum_list (map (\<lambda>x. (x - a) * (x - a)) xs)
         = sum_list (map (\<lambda>x. x * x) xs) - 2 * a * sum_list xs + real (length xs) * (a * a)"
  by (induction xs) (simp_all add: algebra_simps)

lemma square_sum_le:
  fixes xs :: "real list"
  shows "sum_list xs * sum_list xs \<le> real (length xs) * sum_list (map (\<lambda>x. x * x) xs)"
proof (induction xs)
  case Nil
  show ?case by simp
next
  case (Cons a xs)
  have "0 \<le> sum_list (map (\<lambda>x. (x - a) * (x - a)) xs)"
    by (rule sum_list_nonneg) auto
  then have "0 \<le> sum_list (map (\<lambda>x. x * x) xs) - 2 * a * sum_list xs
                  + real (length xs) * (a * a)"
    by (simp only: sum_shifted_squares)
  with Cons show ?case by (simp add: algebra_simps)
qed

lemma variance_nonneg:
  fixes xs :: "real list"
  assumes "xs \<noteq> []"
  shows "0 \<le> sum_list (map (\<lambda>x. x * x) xs) / real (length xs)
              - (sum_list xs / real (length xs)) * (sum_list xs / real (length xs))"
proof -
  let ?n = "real (length xs)"
  have n: "0 < ?n" using assms by simp
  have "sum_list xs * sum_list xs / (?n * ?n) \<le> ?n * sum_list (map (\<lambda>x. x * x) xs) / (?n * ?n)"
    using n square_sum_le[of xs] by (intro divide_right_mono) auto
  also have "\<dots> = sum_list (map (\<lambda>x. x * x) xs) / ?n" using n by simp
  finally show ?thesis by simp
qed

lemma channelMoments_finite:
  assumes wf: "wellFormed d w h" and pos: "0 < w * h" and ch: "0 \<le> ch" "ch \<le> 2"
  shows "isFinite (fst (channelMoments d w h ch))
       \<and> isFinite (fst (snd (channelMoments d w h ch)))"
proof -
  let ?idxs = "steps ch (int (length d)) 4"
  let ?xs = "map (\<lambda>i. real (d ! nat i)) ?idxs"
  have len: "int (length d) = 4 * w * h" using wf by (simp add: wellFormed_def)
  have "length ?idxs = nat ((4 * (w * h) - ch + 3) div 4)"
    by (simp add: length_steps4 len mult.assoc)
  also have "(4 * (w * h) - ch + 3) div 4 = w * h" using ch by linarith
  finally have l: "length ?xs = nat (w * h)" by simp
  then have ne: "?xs \<noteq> []" using pos by auto
  have n: "real (length ?xs) = real_of_int (w * h)" using l pos by simp
  have sq: "sum_list (map (\<lambda>i. real (d ! nat i) * real (d ! nat i)) ?idxs)
            = sum_list (map (\<lambda>x. x * x) ?xs)"
    by (simp add: comp_def)
  have cs: "channelSums d ch
            = (sum_list ?xs, sum_list (map (\<lambda>x. x * x) ?xs),
               sum_list (map (\<lambda>i. real (d ! nat i) * real (d ! nat i) * real (d ! nat i)) ?idxs))"
    unfolding channelSums_def channelSums_fold sq by simp
  have "w * h \<noteq> 0" using pos by linarith
  then have nz: "real_of_int (w * h) \<noteq> 0" by (simp only: of_int_eq_0_iff) simp
  have v: "0 \<le> sum_list (map (\<lambda>x. x * x) ?xs) / real_of_int (w * h)
              - (sum_list ?xs / real_of_int (w * h)) * (sum_list ?xs / real_of_int (w * h))"
    using variance_nonneg[OF ne] by (simp only: n)
  show ?thesis
    using nz v
    by (simp add: channelMoments_def cs Let_def round2_def divide_jsnum_def times_jsnum_def
        minus_jsnum_def del: of_int_mult)
qed

lemma keypoints_finite_with_interior:
  assumes "3 \<le> w" and "3 \<le> h"
  shows "isFinite (orb (extractKeypoints d w h))
       \<and> isFinite (fast (extractKeypoints d w h))
       \<and> isFinite (sift (extractKeypoints d w h))"
proof -
  let ?c = "real (card (edgePixels d w h)) / real_of_int (w * h)"
  let ?e = "meanGradientMagnitude d w h / 255"
  have wh: "w * h \<noteq> 0" using assms by simp
  have c: "calculateImageComplexity d w h = Fin ?c"
    using wh
    by (simp add: calculateImageComplexity_def fold_fold_count edgePixels_card
        divide_jsnum_def del: of_int_mult)
  have nz: "(w - 2) * (h - 2) \<noteq> 0" using assms by simp
  have ci: "real (card (interior w h)) = real_of_int ((w - 2) * (h - 2))"
    using assms by (simp add: card_interior)
  have e: "calculateEdgeDensity d w h = Fin ?e"
    using nz
    by (simp add: calculateEdgeDensity_def edgeStrength_sum meanGradientMagnitude_def
        divide_jsnum_def ci del: of_int_mult)
  show ?thesis
    by (simp only: extractKeypoints_def Let_def c e plus_jsnum_def times_jsnum_def
        jadd.simps jmul.simps jfloor.simps KeypointStats.simps isFinite.simps simp_thms)
qed

lemma finiteInputs_with_interior:
  assumes wf: "wellFormed d w h" and w: "3 \<le> w" and h: "3 \<le> h"
  shows "finiteInputs (extractKeypoints d w h) (extractStatisticalFeatures d w h)"
proof -
  have pos: "0 < w * h" using w h by (simp add: zero_less_mult_iff)
  have m: "isFinite (fst (channelMoments d w h ch))
           \<and> isFinite (fst (snd (channelMoments d w h ch)))"
    if "ch = 0 \<or> ch = 1 \<or> ch = 2" for ch
    using that by (intro channelMoments_finite[OF wf pos]) auto
  have "list_all isFinite (mean (computeColorMoments d w h))
        \<and> list_all isFinite (std (computeColorMoments d w h))"
    using m[of 0] m[of 1] m[of 2] by (simp add: computeColorMoments_def Let_def)
  then show ?thesis
    using keypoints_finite_with_interior[OF w h, of d]
    by (simp add: finiteInputs_def extractStatisticalFeatures_def)
qed

text \<open>For every well-formed image with interior pixels the concatenation has a norm of at
  least 30 and the fused vector has norm 1 within \<open>1e-6\<close>.\<close>

lemma fused_norm_near_one_with_interior:
  assumes wf: "wellFormed d w h" and w: "3 \<le> w" and h: "3 \<le> h"
  shows "\<exists>n m. l2norm (FeatureVector.keypoints (extractFeatureVector d w h)
                     @ FeatureVector.texture (extractFeatureVector d w h)
                     @ FeatureVector.statistical (extractFeatureVector d w h)) = Fin n
             \<and> 30 \<le> n
             \<and> l2norm (fused (extractFeatureVector d w h)) = Fin m
             \<and> \<bar>m - 1\<bar> \<le> 1 / 1000000"
proof -
  have o: "jge (orb (extractKeypoints d w h)) (Fin 30)"
    using keypoints_lower_bounds_with_interior[OF w h, of d] by blast
  show ?thesis
    unfolding extractFeatureVector_def Let_def
    by (rule fused_norm_near_one[OF finiteInputs_with_interior[OF wf w h] o])
qed

end
